theory Spec2Isabelle
  imports Main "HOL-Library.AList"
begin

section \<open>Python library functions used by the handlers\<close>

text \<open>
  Strings are byte lists. The handlers only inspect ASCII characters (\<open>/\<close>, \<open>.\<close>, the
  letters of the configured extensions), so \<open>str.lower\<close> is modelled on the ASCII letters
  and leaves every other byte as it is.
\<close>

definition lower_char :: "char \<Rightarrow> char" where
  "lower_char c =
     (let n = (of_char c :: nat) in if 65 \<le> n \<and> n \<le> 90 then char_of (n + 32) else c)"

definition lower :: "string \<Rightarrow> string" where
  "lower s = map lower_char s"

text \<open>\<open>str.upper\<close>, likewise on the ASCII letters (used to state that case does not matter).\<close>

definition upper_char :: "char \<Rightarrow> char" where
  "upper_char c =
     (let n = (of_char c :: nat) in if 97 \<le> n \<and> n \<le> 122 then char_of (n - 32) else c)"

definition upper :: "string \<Rightarrow> string" where
  "upper s = map upper_char s"

definition startswith :: "string \<Rightarrow> string \<Rightarrow> bool" where
  "startswith s p \<longleftrightarrow> take (length p) s = p"

text \<open>\<open>str.rfind\<close> for a one-character needle: the highest index, or \<open>-1\<close>.\<close>

fun rfind :: "string \<Rightarrow> char \<Rightarrow> int" where
  "rfind [] c = -1"
| "rfind (x # xs) c =
     (let r = rfind xs c in if 0 \<le> r then r + 1 else if x = c then 0 else -1)"

text \<open>
  \<open>posixpath.splitext\<close> (\<open>genericpath._splitext\<close> with \<open>sep = '/'\<close>, no \<open>altsep\<close>,
  \<open>extsep = '.'\<close>):
  \<^verbatim>\<open>
    sepIndex = p.rfind(sep)
    dotIndex = p.rfind(extsep)
    if dotIndex > sepIndex:
        filenameIndex = sepIndex + 1
        while filenameIndex < dotIndex:
            if p[filenameIndex:filenameIndex+1] != extsep:
                return p[:dotIndex], p[dotIndex:]
            filenameIndex += 1
    return p, p[:0]
  \<close>
\<close>

function splitext_loop :: "string \<Rightarrow> int \<Rightarrow> int \<Rightarrow> string \<times> string" where
  "splitext_loop p filenameIndex dotIndex =
     (if filenameIndex < dotIndex then
        (if take 1 (drop (nat filenameIndex) p) \<noteq> ''.''
         then (take (nat dotIndex) p, drop (nat dotIndex) p)
         else splitext_loop p (filenameIndex + 1) dotIndex)
      else (p, ''''))"
  by pat_completeness auto
termination
  by (relation "measure (\<lambda>(p, i, d). nat (d - i))") auto

declare splitext_loop.simps [simp del]

definition splitext :: "string \<Rightarrow> string \<times> string" where
  "splitext p =
     (let sepIndex = rfind p CHR ''/'';
          dotIndex = rfind p CHR ''.''
      in if dotIndex > sepIndex then splitext_loop p (sepIndex + 1) dotIndex else (p, ''''))"

text \<open>\<open>str.split(',')\<close>: the pieces between the commas (an empty string gives one empty piece).\<close>

fun split_comma :: "string \<Rightarrow> string list" where
  "split_comma [] = [[]]"
| "split_comma (c # cs) =
     (if c = CHR '','' then [] # split_comma cs
      else (case split_comma cs of [] \<Rightarrow> [[c]] | w # ws \<Rightarrow> (c # w) # ws))"

section \<open>Exceptions\<close>

text \<open>
  Every exception the handlers can meet is a value; \<open>str_exn\<close> is Python's \<open>str(e)\<close>.
  A \<open>ClientError\<close> carries the message the storage or database service reports.
\<close>

datatype exn =
    ClientError string
  | ParamValidationError string
  | KeyError string
  | TypeError string
  | AttributeError string
  | ValueError string

fun str_exn :: "exn \<Rightarrow> string" where
  "str_exn (ClientError m) = m"
| "str_exn (ParamValidationError m) = m"
| "str_exn (KeyError k) = [CHR 0x27] @ k @ [CHR 0x27]"
| "str_exn (TypeError m) = m"
| "str_exn (AttributeError m) = m"
| "str_exn (ValueError m) = m"

section \<open>JSON values and Python dictionaries\<close>

text \<open>
  What \<open>json.loads\<close> returns, and what the handlers put into their responses. Numbers are
  the integers; a dictionary is the list of its entries in insertion order, with distinct
  keys. \<open>truthy\<close> is Python's truth value, the test behind \<open>if not body\<close>.
\<close>

datatype json =
    JNull
  | JBool bool
  | JInt int
  | JStr string
  | JArr "json list"
  | JObj "(string \<times> json) list"

fun truthy :: "json \<Rightarrow> bool" where
  "truthy JNull = False"
| "truthy (JBool b) = b"
| "truthy (JInt n) = (n \<noteq> 0)"
| "truthy (JStr s) = (s \<noteq> [])"
| "truthy (JArr xs) = (xs \<noteq> [])"
| "truthy (JObj kvs) = (kvs \<noteq> [])"

text \<open>\<open>d.get(key, default)\<close> and \<open>d[key] = value\<close>.\<close>

definition dict_get :: "(string \<times> 'v) list \<Rightarrow> string \<Rightarrow> 'v \<Rightarrow> 'v" where
  "dict_get d key dflt = (case map_of d key of None \<Rightarrow> dflt | Some v \<Rightarrow> v)"

definition dict_set :: "string \<Rightarrow> 'v \<Rightarrow> (string \<times> 'v) list \<Rightarrow> (string \<times> 'v) list" where
  "dict_set key v d = AList.update key v d"

text \<open>Reading a field of a JSON object (used to state what a response holds).\<close>

fun field :: "json \<Rightarrow> string \<Rightarrow> json option" where
  "field (JObj kvs) key = map_of kvs key"
| "field _ key = None"

text \<open>
  \<open>a > b\<close> for a JSON value against an integer: integers compare, booleans count as 0 and 1,
  anything else raises \<open>TypeError\<close>.
\<close>

fun py_gt :: "json \<Rightarrow> int \<Rightarrow> exn + bool" where
  "py_gt (JInt n) m = Inr (n > m)"
| "py_gt (JBool b) m = Inr ((if b then 1 else 0) > m)"
| "py_gt _ m = Inl (TypeError ''> not supported between these instances'')"

text \<open>\<open>str(n)\<close> for a natural number, in decimal.\<close>

fun str_nat :: "nat \<Rightarrow> string" where
  "str_nat n =
     (if n < 10 then [char_of (48 + n)]
      else str_nat (n div 10) @ [char_of (48 + n mod 10)])"

declare str_nat.simps [simp del]

text \<open>
  \<open>int(s)\<close> on ASCII text: surrounding whitespace is stripped, one sign is allowed, then
  decimal digits, with single underscores between digits. \<open>None\<close> is \<open>ValueError\<close>.
\<close>

definition is_digit :: "char \<Rightarrow> bool" where
  "is_digit c \<longleftrightarrow> 48 \<le> (of_char c :: nat) \<and> (of_char c :: nat) \<le> 57"

definition digit_value :: "char \<Rightarrow> nat" where
  "digit_value c = of_char c - 48"

definition is_space :: "char \<Rightarrow> bool" where
  "is_space c \<longleftrightarrow> (of_char c :: nat) \<in> {9, 10, 11, 12, 13, 28, 29, 30, 31, 32}"

definition strip :: "string \<Rightarrow> string" where
  "strip s = rev (dropWhile is_space (rev (dropWhile is_space s)))"

fun digits_after :: "nat \<Rightarrow> string \<Rightarrow> nat option" where
  "digits_after acc [] = Some acc"
| "digits_after acc [c] = (if is_digit c then Some (acc * 10 + digit_value c) else None)"
| "digits_after acc (c # d # ds) =
     (if is_digit c then digits_after (acc * 10 + digit_value c) (d # ds)
      else if c = CHR ''_'' \<and> is_digit d then digits_after (acc * 10 + digit_value d) ds
      else None)"

definition parse_digits :: "string \<Rightarrow> nat option" where
  "parse_digits s =
     (case s of
        [] \<Rightarrow> None
      | c # cs \<Rightarrow> if is_digit c then digits_after (digit_value c) cs else None)"

definition py_int :: "string \<Rightarrow> int option" where
  "py_int s =
     (case strip s of
        [] \<Rightarrow> None
      | c # cs \<Rightarrow>
          if c = CHR ''-'' then map_option (\<lambda>n. - int n) (parse_digits cs)
          else if c = CHR ''+'' then map_option int (parse_digits cs)
          else map_option int (parse_digits (c # cs)))"

section \<open>HTTP responses (create\_response)\<close>

text \<open>
  \<open>create_response\<close> of both API handlers. The body is kept as the JSON value that
  \<open>json.dumps\<close> serialises.
\<close>

record response =
  statusCode :: int
  headers :: "(string \<times> string) list"
  body :: json

definition create_response :: "int \<Rightarrow> json \<Rightarrow> response" where
  "create_response status_code b =
     \<lparr>statusCode = status_code,
      headers = [(''Content-Type'', ''application/json''),
                 (''Access-Control-Allow-Origin'', ''*''),
                 (''Access-Control-Allow-Methods'', ''GET,POST,PUT,DELETE,OPTIONS''),
                 (''Access-Control-Allow-Headers'', ''Content-Type,X-Api-Key'')],
      body = b\<rparr>"

definition error_body :: "string \<Rightarrow> json" where
  "error_body msg = JObj [(''error'', JStr msg)]"

section \<open>Configuration of the file upload system\<close>

text \<open>
  Both Lambda functions of sample 03 read the same environment variables at import time:
  \<^verbatim>\<open>
    UPLOAD_BUCKET = os.environ['UPLOAD_BUCKET']
    PROCESSED_BUCKET = os.environ['PROCESSED_BUCKET']
    MAX_FILE_SIZE_MB = int(os.environ.get('MAX_FILE_SIZE_MB', '10'))
    ALLOWED_FILE_TYPES = os.environ.get('ALLOWED_FILE_TYPES', '.jpg,.png,.pdf').split(',')
    ENABLE_VIRUS_SCAN = ...   (read, never used)
    ENABLE_IMAGE_RESIZE = os.environ.get('ENABLE_IMAGE_RESIZE', 'true').lower() == 'true'
  \<close>
\<close>

record config =
  UPLOAD_BUCKET :: string
  PROCESSED_BUCKET :: string
  MAX_FILE_SIZE_MB :: int
  ALLOWED_FILE_TYPES :: "string list"
  ENABLE_VIRUS_SCAN :: bool
  ENABLE_IMAGE_RESIZE :: bool

definition default_allowed_file_types :: "string list" where
  "default_allowed_file_types = split_comma ''.jpg,.png,.pdf''"

section \<open>Validation policy (issuer and router)\<close>

text \<open>
  \<open>file_processor.validate_file\<close>: size first, then the extension of the object key.
  The content type is a parameter the body never reads.
\<close>

definition validate_file :: "config \<Rightarrow> string \<Rightarrow> int \<Rightarrow> string \<Rightarrow> bool" where
  "validate_file cfg object_key file_size content_type =
     (let max_size_bytes = MAX_FILE_SIZE_MB cfg * 1024 * 1024 in
      if file_size > max_size_bytes then False
      else
        let file_extension = lower (snd (splitext object_key)) in
        if file_extension \<notin> set (ALLOWED_FILE_TYPES cfg) then False
        else True)"

text \<open>
  \<open>api_handler.validate_upload_request\<close>: extension first, then size. The declared size
  comes straight from the request body, so the comparison can raise.
\<close>

definition validate_upload_request :: "config \<Rightarrow> string \<Rightarrow> json \<Rightarrow> exn + bool" where
  "validate_upload_request cfg filename file_size =
     (let file_extension = lower (snd (splitext filename)) in
      if file_extension \<notin> set (ALLOWED_FILE_TYPES cfg) then Inr False
      else
        let max_size_bytes = MAX_FILE_SIZE_MB cfg * 1024 * 1024 in
        case py_gt file_size max_size_bytes of
          Inl e \<Rightarrow> Inl e
        | Inr True \<Rightarrow> Inr False
        | Inr False \<Rightarrow> Inr True)"

section \<open>Object storage (the boto3 S3 client)\<close>

text \<open>
  The store is a finite table from (bucket, key) to objects. A call fails when the object
  it reads is absent, and it can fail for reasons outside the store (access denied,
  throttling, a missing bucket): \<open>fault\<close> says, for the n-th call made to the service and
  for each operation, bucket and key, whether the service refuses that call and with
  which message, so that a refusal can be lasting or pass. \<open>calls\<close> counts the calls made
  so far. A refused call changes nothing but the count.

  A call returns the exception it raised (\<open>Inl\<close>) or its value (\<open>Inr\<close>) together with the
  store as the call left it.
\<close>

record s3_object =
  Body :: string
  ContentType :: "string option"
  Metadata :: "(string \<times> string) list"

datatype s3_op = HeadObject | GetObject | PutObject | CopyObject | DeleteObject | ListObjectsV2

record s3_state =
  objects :: "((string \<times> string) \<times> s3_object) list"
  calls :: nat
  fault :: "nat \<Rightarrow> s3_op \<Rightarrow> string \<Rightarrow> string \<Rightarrow> string option"

type_synonym 'a outcome = "(exn + 'a) \<times> s3_state"

definition called :: "s3_state \<Rightarrow> s3_state" where
  "called s = s\<lparr>calls := Suc (calls s)\<rparr>"

definition ContentLength :: "s3_object \<Rightarrow> int" where
  "ContentLength obj = int (length (Body obj))"

definition head_object :: "s3_state \<Rightarrow> string \<Rightarrow> string \<Rightarrow> s3_object outcome" where
  "head_object s bucket key =
     (case fault s (calls s) HeadObject bucket key of
        Some m \<Rightarrow> (Inl (ClientError m), called s)
      | None \<Rightarrow>
          (case map_of (objects s) (bucket, key) of
             None \<Rightarrow> (Inl (ClientError ''An error occurred (404) when calling the HeadObject operation: Not Found''), called s)
           | Some obj \<Rightarrow> (Inr obj, called s)))"

definition get_object :: "s3_state \<Rightarrow> string \<Rightarrow> string \<Rightarrow> s3_object outcome" where
  "get_object s bucket key =
     (case fault s (calls s) GetObject bucket key of
        Some m \<Rightarrow> (Inl (ClientError m), called s)
      | None \<Rightarrow>
          (case map_of (objects s) (bucket, key) of
             None \<Rightarrow> (Inl (ClientError ''An error occurred (NoSuchKey) when calling the GetObject operation: The specified key does not exist.''), called s)
           | Some obj \<Rightarrow> (Inr obj, called s)))"

definition put_object ::
  "s3_state \<Rightarrow> string \<Rightarrow> string \<Rightarrow> string \<Rightarrow> string \<Rightarrow> (string \<times> string) list \<Rightarrow> unit outcome" where
  "put_object s bucket key content content_type metadata =
     (case fault s (calls s) PutObject bucket key of
        Some m \<Rightarrow> (Inl (ClientError m), called s)
      | None \<Rightarrow>
          (Inr (),
           called (s\<lparr>objects :=
                      AList.update (bucket, key)
                        \<lparr>Body = content, ContentType = Some content_type, Metadata = metadata\<rparr>
                        (objects s)\<rparr>)))"

text \<open>
  \<open>copy_object\<close> with \<open>MetadataDirective='REPLACE'\<close>, as both callers use it: the bytes are
  the source's, the user metadata is the one given, and the content type, which the callers
  do not give, is the service's default.
\<close>

definition copy_object ::
  "s3_state \<Rightarrow> string \<times> string \<Rightarrow> string \<Rightarrow> string \<Rightarrow> (string \<times> string) list \<Rightarrow> unit outcome" where
  "copy_object s copy_source bucket key metadata =
     (case fault s (calls s) CopyObject bucket key of
        Some m \<Rightarrow> (Inl (ClientError m), called s)
      | None \<Rightarrow>
          (case map_of (objects s) copy_source of
             None \<Rightarrow> (Inl (ClientError ''An error occurred (NoSuchKey) when calling the CopyObject operation: The specified key does not exist.''), called s)
           | Some src \<Rightarrow>
               (Inr (),
                called (s\<lparr>objects :=
                           AList.update (bucket, key)
                             \<lparr>Body = Body src, ContentType = Some ''binary/octet-stream'',
                              Metadata = metadata\<rparr>
                             (objects s)\<rparr>))))"

text \<open>Deleting an absent key succeeds, as in S3.\<close>

definition delete_object :: "s3_state \<Rightarrow> string \<Rightarrow> string \<Rightarrow> unit outcome" where
  "delete_object s bucket key =
     (case fault s (calls s) DeleteObject bucket key of
        Some m \<Rightarrow> (Inl (ClientError m), called s)
      | None \<Rightarrow> (Inr (), called (s\<lparr>objects := AList.delete (bucket, key) (objects s)\<rparr>)))"

text \<open>
  \<open>list_objects_v2(Bucket, Prefix)\<close>: the keys of the bucket that start with the prefix.
  The response has a \<open>Contents\<close> entry exactly when this list is not empty.
\<close>

definition list_objects_v2 :: "s3_state \<Rightarrow> string \<Rightarrow> string \<Rightarrow> string list outcome" where
  "list_objects_v2 s bucket pfx =
     (case fault s (calls s) ListObjectsV2 bucket pfx of
        Some m \<Rightarrow> (Inl (ClientError m), called s)
      | None \<Rightarrow>
          (Inr (map (snd \<circ> fst)
                  (filter (\<lambda>(bk, obj). fst bk = bucket \<and> startswith (snd bk) pfx) (objects s))),
           called s))"

section \<open>File Processing Router (file\_processor.py)\<close>

text \<open>
  A function of the router returns its exception or its value together with the store as
  it left it: what was written before an exception stays written. Logging is not modelled.
\<close>

definition quarantine_metadata :: "string \<Rightarrow> string \<Rightarrow> (string \<times> string) list" where
  "quarantine_metadata reason object_key =
     [(''quarantine-reason'', reason),
      (''original-key'', object_key),
      (''quarantined-by'', ''file-upload-system'')]"

definition processing_metadata :: "string \<Rightarrow> (string \<times> string) list" where
  "processing_metadata object_key =
     [(''original-key'', object_key),
      (''processed-by'', ''file-upload-system''),
      (''processing-status'', ''completed'')]"

text \<open>
  \<open>move_to_quarantine\<close>, \<open>move_to_processed\<close> and \<open>process_image\<close> wrap their body in
  \<open>try: ... except Exception as e: logger.error(...); raise\<close>: the exception leaves the
  function unchanged.
\<close>

definition move_to_quarantine :: "s3_state \<Rightarrow> string \<Rightarrow> string \<Rightarrow> string \<Rightarrow> unit outcome" where
  "move_to_quarantine s bucket_name object_key reason =
     (let quarantine_key = ''quarantine/'' @ object_key in
      case copy_object s (bucket_name, object_key) bucket_name quarantine_key
             (quarantine_metadata reason object_key) of
        (Inl e, s1) \<Rightarrow> (Inl e, s1)
      | (Inr u, s1) \<Rightarrow>
          (case delete_object s1 bucket_name object_key of
             (Inl e, s2) \<Rightarrow> (Inl e, s2)
           | (Inr u, s2) \<Rightarrow> (Inr (), s2)))"

definition move_to_processed :: "config \<Rightarrow> s3_state \<Rightarrow> string \<Rightarrow> string \<Rightarrow> unit outcome" where
  "move_to_processed cfg s bucket_name object_key =
     (let processed_key = ''processed/'' @ object_key in
      case copy_object s (bucket_name, object_key) (PROCESSED_BUCKET cfg) processed_key
             (processing_metadata object_key) of
        (Inl e, s1) \<Rightarrow> (Inl e, s1)
      | (Inr u, s1) \<Rightarrow>
          (case delete_object s1 bucket_name object_key of
             (Inl e, s2) \<Rightarrow> (Inl e, s2)
           | (Inr u, s2) \<Rightarrow> (Inr (), s2)))"

definition process_image :: "config \<Rightarrow> s3_state \<Rightarrow> string \<Rightarrow> string \<Rightarrow> unit outcome" where
  "process_image cfg s bucket_name object_key =
     (let processed_key = ''processed/'' @ object_key in
      case get_object s bucket_name object_key of
        (Inl e, s1) \<Rightarrow> (Inl e, s1)
      | (Inr response, s1) \<Rightarrow>
          (let file_content = Body response in
           case put_object s1 (PROCESSED_BUCKET cfg) processed_key file_content
                  (case ContentType response of
                     None \<Rightarrow> ''application/octet-stream'' | Some c \<Rightarrow> c)
                  (processing_metadata object_key) of
             (Inl e, s2) \<Rightarrow> (Inl e, s2)
           | (Inr u, s2) \<Rightarrow>
               (case delete_object s2 bucket_name object_key of
                  (Inl e, s3) \<Rightarrow> (Inl e, s3)
                | (Inr u, s3) \<Rightarrow> (Inr (), s3))))"

text \<open>
  The body of the \<open>try\<close> block of \<open>process_uploaded_file\<close>: fetch the object's size and
  content type, validate, then quarantine or dispatch.
\<close>

definition process_uploaded_file_try :: "config \<Rightarrow> s3_state \<Rightarrow> string \<Rightarrow> string \<Rightarrow> unit outcome" where
  "process_uploaded_file_try cfg s bucket_name object_key =
     (case head_object s bucket_name object_key of
        (Inl e, s1) \<Rightarrow> (Inl e, s1)
      | (Inr response, s1) \<Rightarrow>
          (let file_size = ContentLength response;
               content_type = (case ContentType response of None \<Rightarrow> [] | Some c \<Rightarrow> c)
           in
             if \<not> validate_file cfg object_key file_size content_type
             then move_to_quarantine s1 bucket_name object_key ''Validation failed''
             else if startswith content_type ''image/'' \<and> ENABLE_IMAGE_RESIZE cfg
             then process_image cfg s1 bucket_name object_key
             else move_to_processed cfg s1 bucket_name object_key))"

text \<open>
  \<open>process_uploaded_file\<close>: any exception of the \<open>try\<close> block, the first quarantine's
  included, is answered by \<open>move_to_quarantine\<close> with reason \<open>Processing error: {str(e)}\<close>,
  whose own exception is not caught.
\<close>

definition process_uploaded_file :: "config \<Rightarrow> s3_state \<Rightarrow> string \<Rightarrow> string \<Rightarrow> unit outcome" where
  "process_uploaded_file cfg s bucket_name object_key =
     (case process_uploaded_file_try cfg s bucket_name object_key of
        (Inr u, s1) \<Rightarrow> (Inr u, s1)
      | (Inl e, s1) \<Rightarrow>
          move_to_quarantine s1 bucket_name object_key (''Processing error: '' @ str_exn e))"

text \<open>
  One record of a storage notification. A field the event lacks is \<open>None\<close>; reading it
  raises \<open>KeyError\<close>. The key arrives URL-encoded; \<open>unquote_plus\<close> (urllib) decodes it and is
  a parameter of the model.
\<close>

record event_record =
  eventSource :: "string option"
  eventName :: "string option"
  s3_bucket_name :: "string option"
  s3_object_key :: "string option"

definition process_s3_event ::
  "(string \<Rightarrow> string) \<Rightarrow> config \<Rightarrow> s3_state \<Rightarrow> event_record \<Rightarrow> unit outcome" where
  "process_s3_event unquote_plus cfg s record =
     (case s3_bucket_name record of
        None \<Rightarrow> (Inl (KeyError ''s3''), s)
      | Some bucket_name \<Rightarrow>
          (case s3_object_key record of
             None \<Rightarrow> (Inl (KeyError ''object''), s)
           | Some raw_key \<Rightarrow>
               (let object_key = unquote_plus raw_key in
                case eventName record of
                  None \<Rightarrow> (Inl (KeyError ''eventName''), s)
                | Some event_name \<Rightarrow>
                    if startswith event_name ''ObjectCreated''
                    then process_uploaded_file cfg s bucket_name object_key
                    else (Inr (), s))))"

text \<open>The \<open>for record in event['Records']\<close> loop: the first exception ends it.\<close>

fun process_records ::
  "(string \<Rightarrow> string) \<Rightarrow> config \<Rightarrow> s3_state \<Rightarrow> event_record list \<Rightarrow> unit outcome" where
  "process_records unquote_plus cfg s [] = (Inr (), s)"
| "process_records unquote_plus cfg s (record # records) =
     (case eventSource record of
        None \<Rightarrow> (Inl (KeyError ''eventSource''), s)
      | Some src \<Rightarrow>
          if src = ''aws:s3'' then
            (case process_s3_event unquote_plus cfg s record of
               (Inl e, s1) \<Rightarrow> (Inl e, s1)
             | (Inr u, s1) \<Rightarrow> process_records unquote_plus cfg s1 records)
          else process_records unquote_plus cfg s records)"

text \<open>
  \<open>lambda_handler\<close> of the processor: the event's \<open>Records\<close> (absent: \<open>KeyError\<close>); success
  is the pair of status code and body, an exception is logged and raised again.
\<close>

definition processor_lambda_handler ::
  "(string \<Rightarrow> string) \<Rightarrow> config \<Rightarrow> s3_state \<Rightarrow> event_record list option \<Rightarrow> (int \<times> string) outcome" where
  "processor_lambda_handler unquote_plus cfg s event =
     (case event of
        None \<Rightarrow> (Inl (KeyError ''Records''), s)
      | Some records \<Rightarrow>
          (case process_records unquote_plus cfg s records of
             (Inl e, s1) \<Rightarrow> (Inl e, s1)
           | (Inr u, s1) \<Rightarrow> (Inr (200, ''Successfully processed files''), s1)))"

section \<open>Upload URL Issuer and File Registry Query (sample 03, api\_handler.py)\<close>

text \<open>
  What the issuer takes from outside: the value of \<open>str(uuid.uuid4())\<close>, the value of
  \<open>datetime.now().isoformat()\<close>, and the S3 client's \<open>generate_presigned_url\<close>, which
  signs locally and can raise.
\<close>

record presign_params =
  pp_Bucket :: string
  pp_Key :: string
  pp_ContentType :: json
  pp_Metadata :: "(string \<times> string) list"

record upload_env =
  uuid4 :: string
  now_isoformat :: string
  generate_presigned_url :: "string \<Rightarrow> presign_params \<Rightarrow> int \<Rightarrow> exn + string"

text \<open>
  \<open>get_upload_url\<close>. A body that is not a dictionary has no \<open>get\<close> and a file name that is
  not a string cannot be split (\<open>AttributeError\<close>, \<open>TypeError\<close>): both end in the
  \<open>except Exception\<close> branch, as does an exception of the validation or of the signing.
\<close>

definition get_upload_url :: "config \<Rightarrow> upload_env \<Rightarrow> json \<Rightarrow> response" where
  "get_upload_url cfg env request_body =
     (if \<not> truthy request_body then create_response 400 (error_body ''Request body required'')
      else
        (case request_body of
           JObj kvs \<Rightarrow>
             (let filename = dict_get kvs ''filename'' JNull;
                  content_type = dict_get kvs ''content_type'' (JStr ''application/octet-stream'');
                  file_size = dict_get kvs ''file_size'' (JInt 0)
              in
                if \<not> truthy filename then create_response 400 (error_body ''filename is required'')
                else
                  (case filename of
                     JStr fname \<Rightarrow>
                       (case validate_upload_request cfg fname file_size of
                          Inl e \<Rightarrow> create_response 500 (error_body ''Failed to generate upload URL'')
                        | Inr False \<Rightarrow> create_response 400 (error_body ''Invalid file'')
                        | Inr True \<Rightarrow>
                            (let file_id = uuid4 env;
                                 file_key = ''uploads/'' @ file_id @ ''/'' @ fname
                             in
                               case generate_presigned_url env ''put_object''
                                      \<lparr>pp_Bucket = UPLOAD_BUCKET cfg,
                                       pp_Key = file_key,
                                       pp_ContentType = content_type,
                                       pp_Metadata =
                                         [(''file-id'', file_id),
                                          (''original-filename'', fname),
                                          (''upload-time'', now_isoformat env)]\<rparr>
                                      900 of
                                 Inl e \<Rightarrow>
                                   create_response 500 (error_body ''Failed to generate upload URL'')
                               | Inr presigned_url \<Rightarrow>
                                   create_response 200
                                     (JObj [(''upload_url'', JStr presigned_url),
                                            (''file_id'', JStr file_id),
                                            (''file_key'', JStr file_key),
                                            (''expires_in'', JInt 900),
                                            (''instructions'',
                                               JObj [(''method'', JStr ''PUT''),
                                                     (''headers'',
                                                        JObj [(''Content-Type'', content_type)])])])))
                   | _ \<Rightarrow> create_response 500 (error_body ''Failed to generate upload URL'')))
         | _ \<Rightarrow> create_response 500 (error_body ''Failed to generate upload URL'')))"

text \<open>
  \<open>get_processing_status\<close>. The identifier comes from \<open>path_parameters.get('fileId')\<close> and
  can be \<open>None\<close>. The incoming area is listed first, the processed area second; the
  answer looks at the processed listing first.
\<close>

definition get_processing_status :: "config \<Rightarrow> s3_state \<Rightarrow> string option \<Rightarrow> response" where
  "get_processing_status cfg s file_id =
     (case file_id of
        None \<Rightarrow> create_response 400 (error_body ''file_id is required'')
      | Some fid \<Rightarrow>
          if fid = [] then create_response 400 (error_body ''file_id is required'')
          else
            (case list_objects_v2 s (UPLOAD_BUCKET cfg) (''uploads/'' @ fid @ ''/'') of
               (Inl e, s1) \<Rightarrow>
                 create_response 500 (error_body ''Failed to check processing status'')
             | (Inr upload_objects, s1) \<Rightarrow>
                 (case list_objects_v2 s1 (PROCESSED_BUCKET cfg)
                         (''processed/uploads/'' @ fid @ ''/'') of
                    (Inl e, s2) \<Rightarrow>
                      create_response 500 (error_body ''Failed to check processing status'')
                  | (Inr processed_objects, s2) \<Rightarrow>
                      (let (status, message) =
                             (if processed_objects \<noteq> []
                              then (''completed'', ''File processing completed'')
                              else if upload_objects \<noteq> []
                              then (''processing'', ''File is being processed'')
                              else (''not_found'', ''File not found''))
                       in create_response 200
                            (JObj [(''file_id'', JStr fid),
                                   (''status'', JStr status),
                                   (''message'', JStr message)])))))"

section \<open>Key-value table (the boto3 DynamoDB table resource)\<close>

text \<open>
  An item is a Python dictionary of attributes. The table holds the items in scan order,
  keyed by the string attribute \<open>id\<close>. Each call is a request, and \<open>db_fault\<close> says which
  requests the service refuses (throttling, a missing table, an expression it rejects for
  a reserved word or its syntax) and with which message. A refused request changes nothing.
  \<open>uuid_calls\<close> counts the identifiers \<open>uuid.uuid4()\<close> has handed out so far.
\<close>

type_synonym item = "(string \<times> json) list"

datatype db_request =
    Scan "int option"
  | GetItem string
  | PutItem item
  | UpdateItem string "(string \<times> string) list" "(string \<times> json) list"

record db_state =
  table :: "(string \<times> item) list"
  uuid_calls :: nat
  db_fault :: "db_request \<Rightarrow> string option"

text \<open>
  \<open>table.scan(**scan_kwargs)\<close>: all items, or the first \<open>Limit\<close> of them. The client refuses a
  \<open>Limit\<close> below 1 before any request is sent.
\<close>

definition db_scan :: "db_state \<Rightarrow> int option \<Rightarrow> exn + item list" where
  "db_scan s limit =
     (case limit of
        None \<Rightarrow>
          (case db_fault s (Scan None) of
             Some m \<Rightarrow> Inl (ClientError m)
           | None \<Rightarrow> Inr (map snd (table s)))
      | Some n \<Rightarrow>
          if n < 1 then Inl (ParamValidationError ''Invalid value for parameter Limit, valid min value: 1'')
          else
            (case db_fault s (Scan (Some n)) of
               Some m \<Rightarrow> Inl (ClientError m)
             | None \<Rightarrow> Inr (take (nat n) (map snd (table s)))))"

text \<open>\<open>table.get_item(Key={'id': item_id})\<close>: the response has an \<open>Item\<close> or not.\<close>

definition db_get_item :: "db_state \<Rightarrow> string \<Rightarrow> exn + item option" where
  "db_get_item s item_id =
     (case db_fault s (GetItem item_id) of
        Some m \<Rightarrow> Inl (ClientError m)
      | None \<Rightarrow> Inr (map_of (table s) item_id))"


text \<open>
  \<open>table.update_item(Key, UpdateExpression, ExpressionAttributeValues, ReturnValues='ALL_NEW')\<close>.
  The expression \<open>SET a = :a, b = :b\<close> is the list of its clauses \<open>(a, :a), (b, :b)\<close>. The
  service rejects an expression that sets one path twice and a value name that has no
  value; otherwise it sets the attributes (creating the item if the key is new) and returns
  the whole new item.
\<close>

fun apply_set_clauses :: "(string \<times> string) list \<Rightarrow> (string \<times> json) list \<Rightarrow> item \<Rightarrow> item option" where
  "apply_set_clauses [] vals it = Some it"
| "apply_set_clauses ((path, name) # clauses) vals it =
     (case map_of vals name of
        None \<Rightarrow> None
      | Some v \<Rightarrow> apply_set_clauses clauses vals (dict_set path v it))"

definition db_update_item ::
  "db_state \<Rightarrow> string \<Rightarrow> (string \<times> string) list \<Rightarrow> (string \<times> json) list \<Rightarrow> exn + (item \<times> db_state)" where
  "db_update_item s item_id update_expression expression_values =
     (case db_fault s (UpdateItem item_id update_expression expression_values) of
        Some m \<Rightarrow> Inl (ClientError m)
      | None \<Rightarrow>
          if \<not> distinct (map fst update_expression)
          then Inl (ClientError ''ValidationException: Invalid UpdateExpression: Two document paths overlap with each other'')
          else
            (case apply_set_clauses update_expression expression_values
                    (case map_of (table s) item_id of
                       None \<Rightarrow> [(''id'', JStr item_id)]
                     | Some it \<Rightarrow> it) of
               None \<Rightarrow> Inl (ClientError ''ValidationException: An expression attribute value used in expression is not defined'')
             | Some new_item \<Rightarrow>
                 Inr (new_item, s\<lparr>table := AList.update item_id new_item (table s)\<rparr>)))"

section \<open>Item Store Adapter (sample 02, api\_handler.py)\<close>

text \<open>
  What the adapter takes from outside: the sequence of values \<open>str(uuid.uuid4())\<close> returns,
  call after call, and the rendering of a timestamp (\<open>datetime.fromisoformat\<close> followed by
  \<open>strftime\<close>; \<open>None\<close> where the parse raises). The value of \<open>datetime.now().isoformat()\<close> is
  an argument of the operation that reads the clock.
\<close>

record crud_env =
  uuid_seq :: "nat \<Rightarrow> string"
  strftime_iso :: "string \<Rightarrow> string option"

text \<open>
  The table resource returns every number as a \<open>Decimal\<close>, which \<open>json.dumps\<close> refuses with
  \<open>TypeError\<close>: an item read back from the table can be put into a response only if it
  holds no number. (An item built from the request body holds Python integers, which
  serialise.)
\<close>

primrec has_number :: "json \<Rightarrow> bool" where
  "has_number JNull = False"
| "has_number (JBool b) = False"
| "has_number (JInt n) = True"
| "has_number (JStr t) = False"
| "has_number (JArr xs) = list_ex id (map has_number xs)"
| "has_number (JObj kvs) = list_ex snd (map (map_prod id has_number) kvs)"

text \<open>
  \<open>format_datetime\<close>: the rendering, or the input itself when anything raises (a value that
  is not a string has no \<open>replace\<close>).
\<close>

definition format_datetime :: "crud_env \<Rightarrow> json \<Rightarrow> json" where
  "format_datetime env iso_string =
     (case iso_string of
        JStr t \<Rightarrow> (case strftime_iso env t of None \<Rightarrow> iso_string | Some d \<Rightarrow> JStr d)
      | _ \<Rightarrow> iso_string)"

definition format_item :: "crud_env \<Rightarrow> item \<Rightarrow> item" where
  "format_item env it =
     (let formatted = it;
          formatted =
            (case map_of formatted ''created_at'' of
               None \<Rightarrow> formatted
             | Some v \<Rightarrow> dict_set ''created_at_display'' (format_datetime env v) formatted);
          formatted =
            (case map_of formatted ''updated_at'' of
               None \<Rightarrow> formatted
             | Some v \<Rightarrow> dict_set ''updated_at_display'' (format_datetime env v) formatted)
      in formatted)"

text \<open>
  \<open>get_all_items\<close>. The query parameters are strings. \<open>if limit:\<close> passes a \<open>Limit\<close> only
  when the parsed number is not zero. The response is built inside the \<open>try\<close>, so a number
  among the items read ends in the \<open>except\<close> branch.
\<close>

definition get_all_items :: "crud_env \<Rightarrow> db_state \<Rightarrow> (string \<times> string) list \<Rightarrow> response" where
  "get_all_items env s query_params =
     (case (case map_of query_params ''limit'' of
              None \<Rightarrow> Inr None
            | Some text \<Rightarrow>
                (case py_int text of
                   None \<Rightarrow> Inl (create_response 400 (error_body ''Invalid limit parameter''))
                 | Some n \<Rightarrow> Inr (Some n))) of
        Inl bad_request \<Rightarrow> bad_request
      | Inr limit \<Rightarrow>
          (let scan_kwargs = (case limit of
                                None \<Rightarrow> None
                              | Some n \<Rightarrow> if n \<noteq> 0 then Some n else None)
           in
             case db_scan s scan_kwargs of
               Inl e \<Rightarrow> create_response 500 (error_body ''Failed to retrieve items'')
             | Inr found \<Rightarrow>
                 (let items = map (\<lambda>it. JObj (format_item env it)) found in
                  if has_number (JArr items)
                  then create_response 500 (error_body ''Failed to retrieve items'')
                  else
                  create_response 200
                    (JObj [(''items'', JArr items),
                           (''count'', JInt (int (length items))),
                           (''message'',
                              JStr (''Successfully retrieved '' @ str_nat (length items)
                                    @ '' items''))]))))"



text \<open>
  \<open>update_item\<close>. The loop extends the expression \<open>SET updated_at = :updated_at\<close> and the
  value dictionary \<open>{':updated_at': now}\<close> by every field of the body except \<open>id\<close> and
  \<open>created_at\<close>.
\<close>

fun update_item_loop ::
  "(string \<times> json) list \<Rightarrow> (string \<times> string) list \<times> (string \<times> json) list
   \<Rightarrow> (string \<times> string) list \<times> (string \<times> json) list" where
  "update_item_loop [] (update_expression, expression_values) =
     (update_expression, expression_values)"
| "update_item_loop ((key, v) # rest) (update_expression, expression_values) =
     update_item_loop rest
       (if key \<notin> set [''id'', ''created_at'']
        then (update_expression @ [(key, '':'' @ key)],
              dict_set ('':'' @ key) v expression_values)
        else (update_expression, expression_values))"

definition update_item ::
  "crud_env \<Rightarrow> db_state \<Rightarrow> string \<Rightarrow> string \<Rightarrow> json \<Rightarrow> response \<times> db_state" where
  "update_item env s current_time item_id request_body =
     (if \<not> truthy request_body
      then (create_response 400 (error_body ''Request body is required''), s)
      else
        (case db_get_item s item_id of
           Inl e \<Rightarrow> (create_response 500 (error_body ''Failed to update item''), s)
         | Inr None \<Rightarrow>
             (create_response 404
                (error_body (''Item with id '' @ item_id @ '' not found'')), s)
         | Inr (Some existing) \<Rightarrow>
             (case request_body of
                JObj kvs \<Rightarrow>
                  (let (update_expression, expression_values) =
                         update_item_loop kvs
                           ([(''updated_at'', '':updated_at'')],
                            [('':updated_at'', JStr current_time)])
                   in
                     case db_update_item s item_id update_expression expression_values of
                       Inl e \<Rightarrow> (create_response 500 (error_body ''Failed to update item''), s)
                     | Inr (attributes, s1) \<Rightarrow>
                         if has_number (JObj (format_item env attributes))
                         then (create_response 500 (error_body ''Failed to update item''), s1)
                         else
                         (create_response 200
                            (JObj [(''item'', JObj (format_item env attributes)),
                                   (''message'',
                                      JStr (''Item '' @ item_id @ '' updated successfully''))]),
                          s1))
              | _ \<Rightarrow> (create_response 500 (error_body ''Failed to update item''), s))))"

section \<open>Example inputs\<close>

text \<open>Concrete configurations, stores and events on which the theorems are exercised.\<close>

definition example_config :: config where
  "example_config = \<lparr>UPLOAD_BUCKET = ''upload-bucket'', PROCESSED_BUCKET = ''processed-bucket'',
     MAX_FILE_SIZE_MB = 10, ALLOWED_FILE_TYPES = default_allowed_file_types,
     ENABLE_VIRUS_SCAN = False, ENABLE_IMAGE_RESIZE = True\<rparr>"

definition created_record :: "string \<Rightarrow> string \<Rightarrow> event_record" where
  "created_record bucket key =
     \<lparr>eventSource = Some ''aws:s3'', eventName = Some ''ObjectCreated:Put'',
      s3_bucket_name = Some bucket, s3_object_key = Some key\<rparr>"

definition store_with :: "string \<Rightarrow> string \<Rightarrow> string \<Rightarrow> string \<Rightarrow> s3_state" where
  "store_with bucket key content ctype =
     \<lparr>objects = [((bucket, key), \<lparr>Body = content, ContentType = Some ctype, Metadata = []\<rparr>)],
      calls = 0,
      fault = (\<lambda>n op b k. None)\<rparr>"

definition denied_delete_store :: "string \<Rightarrow> string \<Rightarrow> string \<Rightarrow> string \<Rightarrow> s3_state" where
  "denied_delete_store bucket key content ctype =
     \<lparr>objects = [((bucket, key), \<lparr>Body = content, ContentType = Some ctype, Metadata = []\<rparr>)],
      calls = 0,
      fault = (\<lambda>n op b k. if op = DeleteObject then Some ''Access Denied'' else None)\<rparr>"

text \<open>A store that refuses one call only, the third (the delete of the pass-through step).\<close>

definition slow_down_once_store :: "string \<Rightarrow> string \<Rightarrow> string \<Rightarrow> string \<Rightarrow> s3_state" where
  "slow_down_once_store bucket key content ctype =
     \<lparr>objects = [((bucket, key), \<lparr>Body = content, ContentType = Some ctype, Metadata = []\<rparr>)],
      calls = 0,
      fault = (\<lambda>n op b k. if n = 2 then Some ''SlowDown'' else None)\<rparr>"

definition example_upload_env :: upload_env where
  "example_upload_env =
     \<lparr>uuid4 = ''3f2b8c1e-0000-4000-8000-000000000001'',
      now_isoformat = ''2024-05-01T10:00:00'',
      generate_presigned_url = (\<lambda>method p expires. Inr (''https://s3.example/'' @ pp_Key p))\<rparr>"

definition quarantined_only_store :: s3_state where
  "quarantined_only_store =
     \<lparr>objects = [((''upload-bucket'', ''quarantine/uploads/f1/x.exe''),
                  \<lparr>Body = ''MZ...'', ContentType = Some ''binary/octet-stream'',
                   Metadata = quarantine_metadata ''Validation failed'' ''uploads/f1/x.exe''\<rparr>)],
      calls = 0,
      fault = (\<lambda>n op b k. None)\<rparr>"

definition example_crud_env :: crud_env where
  "example_crud_env =
     \<lparr>uuid_seq = (\<lambda>n. ''item-'' @ replicate n CHR ''i''),
      strftime_iso = (\<lambda>t. Some t)\<rparr>"

definition example_item :: "string \<Rightarrow> string \<Rightarrow> item" where
  "example_item item_id item_name =
     [(''id'', JStr item_id), (''name'', JStr item_name), (''description'', JStr []),
      (''category'', JStr ''general''), (''created_at'', JStr ''2024-01-01T00:00:00''),
      (''updated_at'', JStr ''2024-01-01T00:00:00''), (''status'', JStr ''active'')]"

definition example_table :: db_state where
  "example_table =
     \<lparr>table = [(''a'', example_item ''a'' ''first''), (''b'', example_item ''b'' ''second''),
               (''c'', example_item ''c'' ''third'')],
      uuid_calls = 0,
      db_fault = (\<lambda>request. None)\<rparr>"



section \<open>Facts about the library functions\<close>

lemma rfind_lower_bound: "-1 \<le> rfind xs c"
  by (induction xs) (auto simp: Let_def)

lemma rfind_upper_bound: "rfind xs c < int (length xs)"
  by (induction xs) (auto simp: Let_def)

lemma rfind_append:
  "rfind (xs @ ys) c = (if 0 \<le> rfind ys c then int (length xs) + rfind ys c else rfind xs c)"
  using rfind_lower_bound [of ys c] by (induction xs) (auto simp: Let_def)

lemma splitext_loop_shift:
  "0 \<le> i \<Longrightarrow> 0 \<le> d \<Longrightarrow>
   snd (splitext_loop (q @ f) (int (length q) + i) (int (length q) + d)) = snd (splitext_loop f i d)"
proof (induction f i d rule: splitext_loop.induct)
  case (1 p i d)
  have idx: "nat (int (length q) + i) = length q + nat i" "nat (int (length q) + d) = length q + nat d"
    using "1.prems" by (simp_all add: nat_add_distrib)
  show ?case
  proof (cases "i < d")
    case False
    then show ?thesis
      by (subst splitext_loop.simps, subst (2) splitext_loop.simps) simp
  next
    case True
    show ?thesis
    proof (cases "take 1 (drop (nat i) p) \<noteq> ''.''")
      case True
      with \<open>i < d\<close> show ?thesis
        by (subst splitext_loop.simps, subst (2) splitext_loop.simps) (simp add: idx)
    next
      case False
      with \<open>i < d\<close> "1.IH" "1.prems" show ?thesis
        by (subst splitext_loop.simps, subst (2) splitext_loop.simps)
           (simp add: idx add.assoc)
    qed
  qed
qed

lemma splitext_under_directory:
  "snd (splitext (pre @ ''/'' @ f)) = snd (splitext f)"
proof -
  let ?q = "pre @ ''/''"
  have q: "pre @ ''/'' @ f = ?q @ f" by simp
  have len: "int (length ?q) = int (length pre) + 1" by simp
  have sep: "rfind (?q @ f) CHR ''/'' = int (length ?q) + rfind f CHR ''/''"
    using rfind_lower_bound [of f "CHR ''/''"]
    by (auto simp: rfind_append Let_def)
  show ?thesis
  proof (cases "0 \<le> rfind f CHR ''.''")
    case True
    then have dot: "rfind (?q @ f) CHR ''.'' = int (length ?q) + rfind f CHR ''.''"
      by (simp add: rfind_append)
    have "snd (splitext_loop (?q @ f) (int (length ?q) + (rfind f CHR ''/'' + 1))
                 (int (length ?q) + rfind f CHR ''.''))
          = snd (splitext_loop f (rfind f CHR ''/'' + 1) (rfind f CHR ''.''))"
      using True rfind_lower_bound [of f "CHR ''/''"]
      by (intro splitext_loop_shift) auto
    then show ?thesis
      unfolding q splitext_def Let_def sep dot by (simp add: add.assoc)
  next
    case False
    then have nodot: "rfind f CHR ''.'' = -1"
      using rfind_lower_bound [of f "CHR ''.''"] by linarith
    have "rfind (?q @ f) CHR ''.'' = rfind ?q CHR ''.''"
      using False by (simp add: rfind_append)
    moreover have "rfind ?q CHR ''.'' < int (length ?q)"
      by (rule rfind_upper_bound)
    moreover have "int (length ?q) - 1 \<le> rfind (?q @ f) CHR ''/''"
      using rfind_lower_bound [of f "CHR ''/''"] unfolding sep by linarith
    ultimately have "\<not> rfind (?q @ f) CHR ''.'' > rfind (?q @ f) CHR ''/''"
      by linarith
    moreover have "\<not> rfind f CHR ''.'' > rfind f CHR ''/''"
      using nodot rfind_lower_bound [of f "CHR ''/''"] by linarith
    ultimately show ?thesis
      unfolding q splitext_def Let_def by simp
  qed
qed

lemma lower_char_fixes:
  assumes "(of_char c :: nat) < 65"
  shows "lower_char x = c \<longleftrightarrow> x = c"
proof
  assume "x = c"
  with assms show "lower_char x = c"
    by (simp add: lower_char_def Let_def)
next
  assume eq: "lower_char x = c"
  show "x = c"
  proof (cases "65 \<le> (of_char x :: nat) \<and> (of_char x :: nat) \<le> 90")
    case True
    then have "lower_char x = char_of ((of_char x :: nat) + 32)"
      by (simp add: lower_char_def Let_def)
    then have "(of_char c :: nat) = ((of_char x :: nat) + 32) mod 256"
      using eq by (metis of_char_of)
    moreover have "((of_char x :: nat) + 32) mod 256 = of_char x + 32"
      using True by (intro mod_less) arith
    ultimately show ?thesis using True assms by arith
  next
    case False
    then show ?thesis using eq by (auto simp: lower_char_def Let_def)
  qed
qed

lemma upper_char_fixes:
  assumes "(of_char c :: nat) < 65"
  shows "upper_char x = c \<longleftrightarrow> x = c"
proof
  assume "x = c"
  with assms show "upper_char x = c"
    by (simp add: upper_char_def Let_def)
next
  assume eq: "upper_char x = c"
  show "x = c"
  proof (cases "97 \<le> (of_char x :: nat) \<and> (of_char x :: nat) \<le> 122")
    case True
    then have "upper_char x = char_of ((of_char x :: nat) - 32)"
      by (simp add: upper_char_def Let_def)
    then have "(of_char c :: nat) = ((of_char x :: nat) - 32) mod 256"
      using eq by (metis of_char_of)
    moreover have "((of_char x :: nat) - 32) mod 256 = of_char x - 32"
      using True by (intro mod_less) arith
    ultimately show ?thesis using True assms by arith
  next
    case False
    then show ?thesis using eq by (auto simp: upper_char_def Let_def)
  qed
qed

lemma lower_upper_char: "lower_char (upper_char c) = lower_char c"
proof (cases "97 \<le> (of_char c :: nat) \<and> (of_char c :: nat) \<le> 122")
  case True
  then have u: "upper_char c = char_of ((of_char c :: nat) - 32)"
    by (simp add: upper_char_def Let_def)
  have "((of_char c :: nat) - 32) mod 256 = of_char c - 32"
    using True by (intro mod_less) arith
  then have code: "(of_char (upper_char c) :: nat) = of_char c - 32"
    unfolding u by simp
  have in_range: "65 \<le> (of_char c :: nat) - 32 \<and> (of_char c :: nat) - 32 \<le> 90"
    using True by arith
  have sum32: "(of_char c :: nat) - 32 + 32 = of_char c"
    using True by arith
  have "lower_char (upper_char c) = char_of ((of_char c :: nat) - 32 + 32)"
    using in_range by (simp add: lower_char_def Let_def code)
  also have "\<dots> = c"
    unfolding sum32 by simp
  also have "c = lower_char c"
    using True by (auto simp: lower_char_def Let_def)
  finally show ?thesis .
next
  case False
  then show ?thesis by (auto simp: upper_char_def Let_def)
qed

lemma lower_char_unchanged:
  "\<not> (65 \<le> (of_char x :: nat) \<and> (of_char x :: nat) \<le> 90) \<Longrightarrow> lower_char x = x"
  by (auto simp: lower_char_def Let_def)

lemma lower_lower_char: "lower_char (lower_char c) = lower_char c"
proof (cases "65 \<le> (of_char c :: nat) \<and> (of_char c :: nat) \<le> 90")
  case True
  then have l: "lower_char c = char_of ((of_char c :: nat) + 32)"
    by (simp add: lower_char_def Let_def)
  have "((of_char c :: nat) + 32) mod 256 = of_char c + 32"
    using True by (intro mod_less) arith
  then have code: "(of_char (lower_char c) :: nat) = of_char c + 32"
    unfolding l by simp
  have "\<not> (65 \<le> (of_char (lower_char c) :: nat) \<and> (of_char (lower_char c) :: nat) \<le> 90)"
    unfolding code using True by arith
  then show ?thesis
    by (rule lower_char_unchanged)
next
  case False
  then have "lower_char c = c"
    by (rule lower_char_unchanged)
  then show ?thesis by simp
qed

lemma rfind_map:
  assumes "\<And>x. g x = c \<longleftrightarrow> x = c"
  shows "rfind (map g xs) c = rfind xs c"
  using assms by (induction xs) (simp_all add: Let_def)

lemma splitext_loop_map:
  assumes dot: "\<And>x. g x = CHR ''.'' \<longleftrightarrow> x = CHR ''.''"
  shows "snd (splitext_loop (map g p) i d) = map g (snd (splitext_loop p i d))"
proof (induction p i d rule: splitext_loop.induct)
  case (1 p i d)
  have one: "take 1 (drop (nat i) (map g p)) \<noteq> ''.'' \<longleftrightarrow> take 1 (drop (nat i) p) \<noteq> ''.''"
    using dot by (cases "drop (nat i) p") (auto simp: drop_map)
  show ?case
  proof (cases "i < d")
    case False
    then show ?thesis
      by (subst splitext_loop.simps, subst (2) splitext_loop.simps) simp
  next
    case True
    show ?thesis
    proof (cases "take 1 (drop (nat i) p) \<noteq> ''.''")
      case True
      with \<open>i < d\<close> one show ?thesis
        by (subst splitext_loop.simps, subst (2) splitext_loop.simps) (simp add: drop_map)
    next
      case False
      with \<open>i < d\<close> one "1.IH" show ?thesis
        by (subst splitext_loop.simps, subst (2) splitext_loop.simps) simp
    qed
  qed
qed

lemma splitext_map:
  assumes dot: "\<And>x. g x = CHR ''.'' \<longleftrightarrow> x = CHR ''.''"
    and sep: "\<And>x. g x = CHR ''/'' \<longleftrightarrow> x = CHR ''/''"
  shows "snd (splitext (map g p)) = map g (snd (splitext p))"
  unfolding splitext_def Let_def
  by (simp add: rfind_map [of g, OF dot] rfind_map [of g, OF sep] splitext_loop_map [of g, OF dot])

lemma extension_ignores_case:
  "lower (snd (splitext (upper p))) = lower (snd (splitext p))"
  "lower (snd (splitext (lower p))) = lower (snd (splitext p))"
proof -
  have "snd (splitext (map upper_char p)) = map upper_char (snd (splitext p))"
    by (rule splitext_map) (simp_all add: upper_char_fixes)
  then show "lower (snd (splitext (upper p))) = lower (snd (splitext p))"
    by (simp add: lower_def upper_def lower_upper_char)
  have "snd (splitext (map lower_char p)) = map lower_char (snd (splitext p))"
    by (rule splitext_map) (simp_all add: lower_char_fixes)
  then show "lower (snd (splitext (lower p))) = lower (snd (splitext p))"
    by (simp add: lower_def lower_lower_char)
qed

section \<open>Facts about the router\<close>

lemma prefixed_key_differs: "p \<noteq> [] \<Longrightarrow> p @ k \<noteq> k"
  by (metis append_self_conv2)

lemma not_startswith_processed: "\<not> startswith (''quarantine/'' @ k) ''processed/''"
  by (simp add: startswith_def)

lemma head_object_ok:
  assumes "map_of (objects s) (b, k) = Some obj" and "fault s (calls s) HeadObject b k = None"
  shows "head_object s b k = (Inr obj, called s)"
  using assms by (simp add: head_object_def)

lemma move_to_quarantine_ok:
  assumes "map_of (objects s) (b, k) = Some obj"
    and "fault s (calls s) CopyObject b (''quarantine/'' @ k) = None"
    and "fault s (Suc (calls s)) DeleteObject b k = None"
  shows "move_to_quarantine s b k reason =
     (Inr (), s\<lparr>objects := AList.delete (b, k)
        (AList.update (b, ''quarantine/'' @ k)
           \<lparr>Body = Body obj, ContentType = Some ''binary/octet-stream'',
            Metadata = quarantine_metadata reason k\<rparr> (objects s)),
        calls := Suc (Suc (calls s))\<rparr>)"
  using assms
  by (simp add: move_to_quarantine_def copy_object_def delete_object_def called_def)

lemma move_to_processed_ok:
  assumes "map_of (objects s) (b, k) = Some obj"
    and "fault s (calls s) CopyObject (PROCESSED_BUCKET cfg) (''processed/'' @ k) = None"
    and "fault s (Suc (calls s)) DeleteObject b k = None"
  shows "move_to_processed cfg s b k =
     (Inr (), s\<lparr>objects := AList.delete (b, k)
        (AList.update (PROCESSED_BUCKET cfg, ''processed/'' @ k)
           \<lparr>Body = Body obj, ContentType = Some ''binary/octet-stream'',
            Metadata = processing_metadata k\<rparr> (objects s)),
        calls := Suc (Suc (calls s))\<rparr>)"
  using assms
  by (simp add: move_to_processed_def copy_object_def delete_object_def called_def)

lemma move_to_quarantine_refused:
  assumes "\<not> (fault s (calls s) CopyObject b (''quarantine/'' @ k) = None
              \<and> fault s (Suc (calls s)) DeleteObject b k = None)"
  shows "\<exists>e s'. move_to_quarantine s b k reason = (Inl e, s')"
  using assms
  by (auto simp: move_to_quarantine_def copy_object_def delete_object_def called_def Let_def
           split: option.splits)

lemma move_to_quarantine_failure_keeps_object:
  assumes "map_of (objects s) (b, k) = Some obj"
    and "move_to_quarantine s b k reason = (Inl e, s1)"
  shows "map_of (objects s1) (b, k) = Some obj \<and> fault s1 = fault s"
proof -
  have "''quarantine/'' @ k \<noteq> k"
    by (rule prefixed_key_differs) simp
  then show ?thesis
    using assms
    by (auto simp: move_to_quarantine_def copy_object_def delete_object_def called_def Let_def
          update_conv' split: option.splits)
qed

lemma move_to_processed_failure_keeps_object:
  assumes "map_of (objects s) (b, k) = Some obj"
    and "move_to_processed cfg s b k = (Inl e, s1)"
  shows "map_of (objects s1) (b, k) = Some obj \<and> fault s1 = fault s"
proof -
  have "''processed/'' @ k \<noteq> k"
    by (rule prefixed_key_differs) simp
  then show ?thesis
    using assms
    by (auto simp: move_to_processed_def copy_object_def delete_object_def called_def Let_def
          update_conv' split: option.splits)
qed

lemma process_image_failure_keeps_object:
  assumes "map_of (objects s) (b, k) = Some obj"
    and "process_image cfg s b k = (Inl e, s1)"
  shows "map_of (objects s1) (b, k) = Some obj \<and> fault s1 = fault s"
proof -
  have "''processed/'' @ k \<noteq> k"
    by (rule prefixed_key_differs) simp
  then show ?thesis
    using assms
    by (auto simp: process_image_def get_object_def put_object_def delete_object_def called_def
          Let_def update_conv' split: option.splits)
qed

section \<open>Facts about the issuer\<close>

lemma default_allowed_file_types_eq:
  "default_allowed_file_types = [''.jpg'', ''.png'', ''.pdf'']"
  by (simp add: default_allowed_file_types_def)

lemma extension_of_x_exe: "lower (snd (splitext ''x.exe'')) = ''.exe''"
  by code_simp

lemma extension_of_x_png: "lower (snd (splitext ''x.png'')) = ''.png''"
  by code_simp

lemma dict_get_nonempty: "dict_get kvs key JNull = JStr v \<Longrightarrow> kvs \<noteq> []"
  by (auto simp: dict_get_def)

section \<open>Facts about the file registry query\<close>

lemma list_objects_v2_served:
  "fault s (calls s) ListObjectsV2 bucket pfx = None \<Longrightarrow>
   list_objects_v2 s bucket pfx
   = (Inr (map (snd \<circ> fst)
             (filter (\<lambda>(bk, obj). fst bk = bucket \<and> startswith (snd bk) pfx) (objects s))),
      called s)"
  by (simp add: list_objects_v2_def)

lemma listing_nonempty_iff:
  "map (snd \<circ> fst) (filter (\<lambda>(bk, obj). fst bk = bucket \<and> startswith (snd bk) pfx) objs) \<noteq> []
   \<longleftrightarrow> (\<exists>bk \<in> fst ` set objs. fst bk = bucket \<and> startswith (snd bk) pfx)"
  by (induction objs) auto

lemma quarantine_not_under_uploads:
  "startswith k ''quarantine/'' \<Longrightarrow> \<not> startswith k (''uploads/'' @ rest)"
  by (cases k) (auto simp: startswith_def)

lemma quarantine_not_under_processed:
  "startswith k ''quarantine/'' \<Longrightarrow> \<not> startswith k (''processed/uploads/'' @ rest)"
  by (cases k) (auto simp: startswith_def)

section \<open>Facts about the item store adapter\<close>

lemma update_item_loop_paths:
  "map fst (fst (update_item_loop kvs acc))
   = map fst (fst acc) @ filter (\<lambda>k. k \<notin> set [''id'', ''created_at'']) (map fst kvs)"
  by (induction kvs acc rule: update_item_loop.induct) auto

lemma db_update_item_overlap:
  "\<not> distinct (map fst update_expression) \<Longrightarrow>
   \<exists>e. db_update_item s item_id update_expression expression_values = Inl e"
  by (simp add: db_update_item_def split: option.splits)




section \<open>Claims\<close>

text \<open>
  C3. The issuer's \<open>validate_upload_request\<close> and the router's \<open>validate_file\<close> implement
  the same policy: under one configuration, for every file name, file identifier and
  integer size, the issuer accepts the declared (file name, size) exactly when the router
  accepts an object of that size stored at \<open>uploads/{file_id}/{filename}\<close>, whatever its
  content type. Both compare the size with \<open>MAX_FILE_SIZE_MB * 1024 * 1024\<close>, and both take
  the extension without regard to case: the answer of either validator is the same for a
  name, for the name in upper case and for the name in lower case.
\<close>

theorem C3_issuer_and_router_agree:
  "validate_upload_request cfg filename (JInt file_size)
     = Inr (validate_file cfg (''uploads/'' @ file_id @ ''/'' @ filename) file_size content_type)
   \<and> validate_upload_request cfg (upper filename) declared_size
     = validate_upload_request cfg filename declared_size
   \<and> validate_upload_request cfg (lower filename) declared_size
     = validate_upload_request cfg filename declared_size
   \<and> validate_file cfg (upper object_key) file_size content_type
     = validate_file cfg object_key file_size content_type
   \<and> validate_file cfg (lower object_key) file_size content_type
     = validate_file cfg object_key file_size content_type"
proof -
  have "snd (splitext (''uploads/'' @ file_id @ ''/'' @ filename)) = snd (splitext filename)"
    using splitext_under_directory [of "''uploads/'' @ file_id" filename] by simp
  then have agree: "validate_upload_request cfg filename (JInt file_size)
     = Inr (validate_file cfg (''uploads/'' @ file_id @ ''/'' @ filename) file_size content_type)"
    unfolding validate_upload_request_def validate_file_def Let_def by auto
  show ?thesis
    using agree
    by (simp add: validate_upload_request_def validate_file_def extension_ignores_case)
qed

text \<open>
  Under the default allow-list, \<open>X.PNG\<close> and \<open>Report.Pdf\<close> are accepted as \<open>x.png\<close> is, and
  \<open>X.EXE\<close> is refused.
\<close>

lemma C3_example:
  "validate_upload_request example_config ''X.PNG'' (JInt 5) = Inr True
   \<and> validate_upload_request example_config ''x.png'' (JInt 5) = Inr True
   \<and> validate_file example_config ''uploads/f1/X.PNG'' 5 ''image/png''
   \<and> validate_file example_config ''uploads/f1/Report.Pdf'' 5 ''application/pdf''
   \<and> validate_upload_request example_config ''X.EXE'' (JInt 5) = Inr False
   \<and> lower ''.PnG'' = ''.png''"
  by code_simp

text \<open>
  C1. For every \<open>ObjectCreated\<close> event whose object fails validation (and whose storage
  calls are served), the router copies the object to \<open>quarantine/{key}\<close> in the same bucket
  with metadata \<open>quarantine-reason = Validation failed\<close>, deletes the original key, leaves
  every other object as it was, and so creates or changes nothing under \<open>processed/\<close>.
\<close>

theorem C1_validation_failure_quarantines:
  assumes created: "eventName record = Some event_name" "startswith event_name ''ObjectCreated''"
    and target: "s3_bucket_name record = Some bucket" "s3_object_key record = Some raw_key"
      "key = unquote_plus raw_key"
    and stored: "map_of (objects s) (bucket, key) = Some obj"
    and invalid: "\<not> validate_file cfg key (ContentLength obj)
                     (case ContentType obj of None \<Rightarrow> [] | Some c \<Rightarrow> c)"
    and served: "fault s (calls s) HeadObject bucket key = None"
      "fault s (calls s + 1) CopyObject bucket (''quarantine/'' @ key) = None"
      "fault s (calls s + 2) DeleteObject bucket key = None"
  shows "let out = process_s3_event unquote_plus cfg s record; s' = snd out in
         fst out = Inr ()
       \<and> map_of (objects s') (bucket, ''quarantine/'' @ key)
           = Some \<lparr>Body = Body obj, ContentType = Some ''binary/octet-stream'',
                   Metadata = [(''quarantine-reason'', ''Validation failed''),
                               (''original-key'', key),
                               (''quarantined-by'', ''file-upload-system'')]\<rparr>
       \<and> map_of (objects s') (bucket, key) = None
       \<and> (\<forall>b k. (b, k) \<noteq> (bucket, key) \<and> (b, k) \<noteq> (bucket, ''quarantine/'' @ key)
             \<longrightarrow> map_of (objects s') (b, k) = map_of (objects s) (b, k))
       \<and> (\<forall>k. startswith k ''processed/''
             \<longrightarrow> map_of (objects s') (PROCESSED_BUCKET cfg, k) = None
               \<or> map_of (objects s') (PROCESSED_BUCKET cfg, k)
                  = map_of (objects s) (PROCESSED_BUCKET cfg, k))"
proof -
  let ?q = "''quarantine/'' @ key"
  let ?s' = "(called s)\<lparr>objects := AList.delete (bucket, key)
        (AList.update (bucket, ?q)
           \<lparr>Body = Body obj, ContentType = Some ''binary/octet-stream'',
            Metadata = quarantine_metadata ''Validation failed'' key\<rparr> (objects (called s))),
        calls := Suc (Suc (calls (called s)))\<rparr>"
  have quarantine: "move_to_quarantine (called s) bucket key ''Validation failed'' = (Inr (), ?s')"
    using stored served(2,3) by (intro move_to_quarantine_ok) (simp_all add: called_def)
  have try_block: "process_uploaded_file_try cfg s bucket key = (Inr (), ?s')"
    using invalid quarantine
    by (simp add: process_uploaded_file_try_def head_object_ok [OF stored served(1)])
  have out: "process_s3_event unquote_plus cfg s record = (Inr (), ?s')"
    using created target try_block
    by (simp add: process_s3_event_def process_uploaded_file_def Let_def)
  have neq: "?q \<noteq> key"
    by (rule prefixed_key_differs) simp
  have unproc: "\<And>k. startswith k ''processed/'' \<Longrightarrow> k \<noteq> ?q"
    using not_startswith_processed by blast
  show ?thesis
    unfolding out Let_def
    using neq unproc
    by (auto simp: AList.update_conv' AList.delete_conv' quarantine_metadata_def called_def)
qed

theorem C1_witness:
  "startswith ''ObjectCreated:Put'' ''ObjectCreated''
   \<and> \<not> validate_file example_config ''uploads/f1/x.exe'' 5 ''application/octet-stream''
   \<and> fst (process_s3_event (\<lambda>k. k) example_config
             (store_with ''upload-bucket'' ''uploads/f1/x.exe'' ''MZ...'' ''application/octet-stream'')
             (created_record ''upload-bucket'' ''uploads/f1/x.exe'')) = Inr ()
   \<and> map_of (objects (snd (process_s3_event (\<lambda>k. k) example_config
             (store_with ''upload-bucket'' ''uploads/f1/x.exe'' ''MZ...'' ''application/octet-stream'')
             (created_record ''upload-bucket'' ''uploads/f1/x.exe''))))
        (''upload-bucket'', ''uploads/f1/x.exe'') = None"
proof -
  have inv: "\<not> validate_file example_config ''uploads/f1/x.exe'' 5 ''application/octet-stream''"
    by code_simp
  have sw: "startswith ''ObjectCreated:Put'' ''ObjectCreated''"
    by (simp add: startswith_def)
  show ?thesis
    using inv sw
      C1_validation_failure_quarantines [of
        "created_record ''upload-bucket'' ''uploads/f1/x.exe''" "''ObjectCreated:Put''"
        "''upload-bucket''" "''uploads/f1/x.exe''" "''uploads/f1/x.exe''" "\<lambda>k. k"
        "store_with ''upload-bucket'' ''uploads/f1/x.exe'' ''MZ...'' ''application/octet-stream''"
        "\<lparr>Body = ''MZ...'', ContentType = Some ''application/octet-stream'', Metadata = []\<rparr>"
        example_config]
    by (simp add: created_record_def store_with_def ContentLength_def Let_def)
qed

text \<open>
  C2. For every \<open>ObjectCreated\<close> event whose object passes validation and whose content
  type does not begin with \<open>image/\<close> (storage calls served), the router copies the object
  to \<open>processed/{key}\<close> in the processed bucket with the source's bytes and the processing
  metadata (\<open>processing-status = completed\<close>), then deletes the source key; every other
  object is as it was.
\<close>

theorem C2_pass_through_moves_to_processed:
  assumes created: "eventName record = Some event_name" "startswith event_name ''ObjectCreated''"
    and target: "s3_bucket_name record = Some bucket" "s3_object_key record = Some raw_key"
      "key = unquote_plus raw_key"
    and stored: "map_of (objects s) (bucket, key) = Some obj"
      "content_type = (case ContentType obj of None \<Rightarrow> [] | Some c \<Rightarrow> c)"
    and valid: "validate_file cfg key (ContentLength obj) content_type"
    and not_image: "\<not> startswith content_type ''image/''"
    and served: "fault s (calls s) HeadObject bucket key = None"
      "fault s (calls s + 1) CopyObject (PROCESSED_BUCKET cfg) (''processed/'' @ key) = None"
      "fault s (calls s + 2) DeleteObject bucket key = None"
  shows "let out = process_s3_event unquote_plus cfg s record; s' = snd out in
         fst out = Inr ()
       \<and> map_of (objects s') (PROCESSED_BUCKET cfg, ''processed/'' @ key)
           = Some \<lparr>Body = Body obj, ContentType = Some ''binary/octet-stream'',
                   Metadata = [(''original-key'', key),
                               (''processed-by'', ''file-upload-system''),
                               (''processing-status'', ''completed'')]\<rparr>
       \<and> map_of (objects s') (bucket, key) = None
       \<and> (\<forall>b k. (b, k) \<noteq> (bucket, key) \<and> (b, k) \<noteq> (PROCESSED_BUCKET cfg, ''processed/'' @ key)
             \<longrightarrow> map_of (objects s') (b, k) = map_of (objects s) (b, k))"
proof -
  let ?p = "''processed/'' @ key"
  let ?s' = "(called s)\<lparr>objects := AList.delete (bucket, key)
        (AList.update (PROCESSED_BUCKET cfg, ?p)
           \<lparr>Body = Body obj, ContentType = Some ''binary/octet-stream'',
            Metadata = processing_metadata key\<rparr> (objects (called s))),
        calls := Suc (Suc (calls (called s)))\<rparr>"
  have moved: "move_to_processed cfg (called s) bucket key = (Inr (), ?s')"
    using stored(1) served(2,3) by (intro move_to_processed_ok) (simp_all add: called_def)
  have try_block: "process_uploaded_file_try cfg s bucket key = (Inr (), ?s')"
    using stored(2) valid not_image moved
    by (simp add: process_uploaded_file_try_def head_object_ok [OF stored(1) served(1)])
  have out: "process_s3_event unquote_plus cfg s record = (Inr (), ?s')"
    using created target try_block
    by (simp add: process_s3_event_def process_uploaded_file_def Let_def)
  have neq: "?p \<noteq> key"
    by (rule prefixed_key_differs) simp
  show ?thesis
    unfolding out Let_def
    using neq
    by (auto simp: AList.update_conv' AList.delete_conv' processing_metadata_def called_def)
qed

theorem C2_witness:
  "startswith ''ObjectCreated:Put'' ''ObjectCreated''
   \<and> validate_file example_config ''uploads/f1/report.pdf'' 8 ''application/pdf''
   \<and> \<not> startswith ''application/pdf'' ''image/''
   \<and> fst (process_s3_event (\<lambda>k. k) example_config
             (store_with ''upload-bucket'' ''uploads/f1/report.pdf'' ''%PDF-1.7'' ''application/pdf'')
             (created_record ''upload-bucket'' ''uploads/f1/report.pdf'')) = Inr ()
   \<and> map_of (objects (snd (process_s3_event (\<lambda>k. k) example_config
             (store_with ''upload-bucket'' ''uploads/f1/report.pdf'' ''%PDF-1.7'' ''application/pdf'')
             (created_record ''upload-bucket'' ''uploads/f1/report.pdf''))))
        (''processed-bucket'', ''processed/uploads/f1/report.pdf'')
       = Some \<lparr>Body = ''%PDF-1.7'', ContentType = Some ''binary/octet-stream'',
               Metadata = [(''original-key'', ''uploads/f1/report.pdf''),
                           (''processed-by'', ''file-upload-system''),
                           (''processing-status'', ''completed'')]\<rparr>
   \<and> map_of (objects (snd (process_s3_event (\<lambda>k. k) example_config
             (store_with ''upload-bucket'' ''uploads/f1/report.pdf'' ''%PDF-1.7'' ''application/pdf'')
             (created_record ''upload-bucket'' ''uploads/f1/report.pdf''))))
        (''upload-bucket'', ''uploads/f1/report.pdf'') = None"
proof -
  have ok: "validate_file example_config ''uploads/f1/report.pdf'' 8 ''application/pdf''"
    by code_simp
  have sw: "startswith ''ObjectCreated:Put'' ''ObjectCreated''"
    and ni: "\<not> startswith ''application/pdf'' ''image/''"
    by (simp_all add: startswith_def)
  have pb: "PROCESSED_BUCKET example_config = ''processed-bucket''"
    by (simp add: example_config_def)
  show ?thesis
    using ok sw ni
      C2_pass_through_moves_to_processed [of
        "created_record ''upload-bucket'' ''uploads/f1/report.pdf''" "''ObjectCreated:Put''"
        "''upload-bucket''" "''uploads/f1/report.pdf''" "''uploads/f1/report.pdf''" "\<lambda>k. k"
        "store_with ''upload-bucket'' ''uploads/f1/report.pdf'' ''%PDF-1.7'' ''application/pdf''"
        "\<lparr>Body = ''%PDF-1.7'', ContentType = Some ''application/pdf'', Metadata = []\<rparr>"
        "''application/pdf''" example_config]
    by (simp add: created_record_def store_with_def ContentLength_def Let_def pb)
qed

text \<open>
  C4 (amended). For an \<open>ObjectCreated\<close> record of an S3 event whose object is stored and
  whose \<open>head_object\<close> is served: when validation fails or the image/pass-through step
  raises, in whatever way and whatever it had already written, \<open>process_uploaded_file\<close>
  answers with a last call of \<open>move_to_quarantine\<close>, made while the object is still at its
  key, with reason \<open>Validation failed\<close> or \<open>Processing error: {message}\<close>. If the copy and the
  delete of that call are served, the object ends under \<open>quarantine/{key}\<close> with that reason,
  the original key is gone, the loop goes on to the remaining records and a handler called
  with this record alone returns status 200. If one of them is refused, the exception is
  not caught: the loop stops and the handler raises it.
\<close>

theorem C4_failures_end_in_quarantine:
  assumes source: "eventSource record = Some ''aws:s3''"
    and created: "eventName record = Some event_name" "startswith event_name ''ObjectCreated''"
    and target: "s3_bucket_name record = Some bucket" "s3_object_key record = Some raw_key"
      "key = unquote_plus raw_key"
    and stored: "map_of (objects s) (bucket, key) = Some obj"
      "content_type = (case ContentType obj of None \<Rightarrow> [] | Some c \<Rightarrow> c)"
    and head: "fault s (calls s) HeadObject bucket key = None"
    and step: "step = (if startswith content_type ''image/'' \<and> ENABLE_IMAGE_RESIZE cfg
                       then process_image cfg (called s) bucket key
                       else move_to_processed cfg (called s) bucket key)"
    and failure: "\<not> validate_file cfg key (ContentLength obj) content_type \<or> fst step \<noteq> Inr ()"
    and out: "out = process_s3_event unquote_plus cfg s record"
  shows "\<exists>s1 reason.
           out = move_to_quarantine s1 bucket key reason
         \<and> map_of (objects s1) (bucket, key) = Some obj
         \<and> (if \<not> validate_file cfg key (ContentLength obj) content_type
             then (s1 = called s \<and> reason = ''Validation failed'')
                \<or> (\<exists>e. move_to_quarantine (called s) bucket key ''Validation failed'' = (Inl e, s1)
                        \<and> reason = ''Processing error: '' @ str_exn e)
             else \<exists>e. step = (Inl e, s1) \<and> reason = ''Processing error: '' @ str_exn e)
         \<and> (if fault s (calls s1) CopyObject bucket (''quarantine/'' @ key) = None
                \<and> fault s (Suc (calls s1)) DeleteObject bucket key = None
             then fst out = Inr ()
                \<and> map_of (objects (snd out)) (bucket, ''quarantine/'' @ key)
                    = Some \<lparr>Body = Body obj, ContentType = Some ''binary/octet-stream'',
                            Metadata = quarantine_metadata reason key\<rparr>
                \<and> map_of (objects (snd out)) (bucket, key) = None
                \<and> process_records unquote_plus cfg s (record # records)
                    = process_records unquote_plus cfg (snd out) records
                \<and> processor_lambda_handler unquote_plus cfg s (Some [record])
                    = (Inr (200, ''Successfully processed files''), snd out)
             else \<exists>e. fst out = Inl e
                \<and> process_records unquote_plus cfg s (record # records) = (Inl e, snd out)
                \<and> processor_lambda_handler unquote_plus cfg s (Some (record # records))
                    = (Inl e, snd out))"
proof -
  let ?q = "''quarantine/'' @ key"
  let ?valid = "validate_file cfg key (ContentLength obj) content_type"
  have event: "out = process_uploaded_file cfg s bucket key"
    unfolding out using created target by (simp add: process_s3_event_def Let_def)
  have looked: "head_object s bucket key = (Inr obj, called s)"
    using stored(1) head by (rule head_object_ok)
  have still: "map_of (objects (called s)) (bucket, key) = Some obj"
    using stored(1) by (simp add: called_def)
  have same_fault: "fault (called s) = fault s"
    by (simp add: called_def)
  have try_block: "process_uploaded_file_try cfg s bucket key
      = (if \<not> ?valid then move_to_quarantine (called s) bucket key ''Validation failed''
         else step)"
    unfolding step using stored(2)
    by (simp add: process_uploaded_file_try_def looked)
  have last_attempt: "\<exists>s1 reason.
        out = move_to_quarantine s1 bucket key reason
      \<and> map_of (objects s1) (bucket, key) = Some obj
      \<and> fault s1 = fault s
      \<and> (if \<not> ?valid
          then (s1 = called s \<and> reason = ''Validation failed'')
             \<or> (\<exists>e. move_to_quarantine (called s) bucket key ''Validation failed'' = (Inl e, s1)
                     \<and> reason = ''Processing error: '' @ str_exn e)
          else \<exists>e. step = (Inl e, s1) \<and> reason = ''Processing error: '' @ str_exn e)"
  proof (cases ?valid)
    case False
    obtain r s1 where first: "move_to_quarantine (called s) bucket key ''Validation failed'' = (r, s1)"
      by (cases "move_to_quarantine (called s) bucket key ''Validation failed''") blast
    show ?thesis
    proof (cases r)
      case (Inr u)
      then have "out = move_to_quarantine (called s) bucket key ''Validation failed''"
        using False first event try_block by (simp add: process_uploaded_file_def)
      then show ?thesis
        using False still same_fault
        by (intro exI [of _ "called s"] exI [of _ "''Validation failed''"]) simp
    next
      case (Inl e)
      then have again: "out = move_to_quarantine s1 bucket key (''Processing error: '' @ str_exn e)"
        using False first event try_block by (simp add: process_uploaded_file_def)
      have "map_of (objects s1) (bucket, key) = Some obj \<and> fault s1 = fault (called s)"
        using still first Inl by (intro move_to_quarantine_failure_keeps_object) auto
      then show ?thesis
        using False again first Inl same_fault
        by (intro exI [of _ s1] exI [of _ "''Processing error: '' @ str_exn e"]) simp
    qed
  next
    case True
    with failure have failed: "fst step \<noteq> Inr ()" by simp
    obtain r s1 where st: "step = (r, s1)"
      by (cases step) blast
    with failed obtain e where e: "step = (Inl e, s1)"
      by (cases r) auto
    have again: "out = move_to_quarantine s1 bucket key (''Processing error: '' @ str_exn e)"
      using True e event try_block by (simp add: process_uploaded_file_def)
    have "map_of (objects s1) (bucket, key) = Some obj \<and> fault s1 = fault (called s)"
    proof (cases "startswith content_type ''image/'' \<and> ENABLE_IMAGE_RESIZE cfg")
      case True
      then have "process_image cfg (called s) bucket key = (Inl e, s1)"
        using e unfolding step by simp
      with still show ?thesis
        by (rule process_image_failure_keeps_object)
    next
      case False
      then have "move_to_processed cfg (called s) bucket key = (Inl e, s1)"
        using e unfolding step by auto
      with still show ?thesis
        by (rule move_to_processed_failure_keeps_object)
    qed
    then show ?thesis
      using True again e same_fault
      by (intro exI [of _ s1] exI [of _ "''Processing error: '' @ str_exn e"]) simp
  qed
  then obtain s1 reason where
    attempt: "out = move_to_quarantine s1 bucket key reason"
    and kept: "map_of (objects s1) (bucket, key) = Some obj"
    and faults: "fault s1 = fault s"
    and why: "if \<not> ?valid
          then (s1 = called s \<and> reason = ''Validation failed'')
             \<or> (\<exists>e. move_to_quarantine (called s) bucket key ''Validation failed'' = (Inl e, s1)
                     \<and> reason = ''Processing error: '' @ str_exn e)
          else \<exists>e. step = (Inl e, s1) \<and> reason = ''Processing error: '' @ str_exn e"
    by blast
  have event': "process_s3_event unquote_plus cfg s record = out"
    using out by simp
  have outcome: "if fault s (calls s1) CopyObject bucket ?q = None
                \<and> fault s (Suc (calls s1)) DeleteObject bucket key = None
             then fst out = Inr ()
                \<and> map_of (objects (snd out)) (bucket, ?q)
                    = Some \<lparr>Body = Body obj, ContentType = Some ''binary/octet-stream'',
                            Metadata = quarantine_metadata reason key\<rparr>
                \<and> map_of (objects (snd out)) (bucket, key) = None
                \<and> process_records unquote_plus cfg s (record # records)
                    = process_records unquote_plus cfg (snd out) records
                \<and> processor_lambda_handler unquote_plus cfg s (Some [record])
                    = (Inr (200, ''Successfully processed files''), snd out)
             else \<exists>e. fst out = Inl e
                \<and> process_records unquote_plus cfg s (record # records) = (Inl e, snd out)
                \<and> processor_lambda_handler unquote_plus cfg s (Some (record # records))
                    = (Inl e, snd out)"
  proof (cases "fault s (calls s1) CopyObject bucket ?q = None
                \<and> fault s (Suc (calls s1)) DeleteObject bucket key = None")
    case True
    then have served: "fault s1 (calls s1) CopyObject bucket ?q = None"
      "fault s1 (Suc (calls s1)) DeleteObject bucket key = None"
      using faults by simp_all
    have finished: "out = (Inr (), s1\<lparr>objects := AList.delete (bucket, key)
        (AList.update (bucket, ?q)
           \<lparr>Body = Body obj, ContentType = Some ''binary/octet-stream'',
            Metadata = quarantine_metadata reason key\<rparr> (objects s1)),
        calls := Suc (Suc (calls s1))\<rparr>)"
      unfolding attempt using kept served by (rule move_to_quarantine_ok)
    have neq: "?q \<noteq> key"
      by (rule prefixed_key_differs) simp
    have "fst out = Inr ()"
      and "map_of (objects (snd out)) (bucket, ?q)
            = Some \<lparr>Body = Body obj, ContentType = Some ''binary/octet-stream'',
                    Metadata = quarantine_metadata reason key\<rparr>"
      and "map_of (objects (snd out)) (bucket, key) = None"
      unfolding finished using neq by (simp_all add: update_conv' delete_conv')
    moreover have "process_records unquote_plus cfg s (record # records)
        = process_records unquote_plus cfg (snd out) records"
      using source event' finished by simp
    moreover have "processor_lambda_handler unquote_plus cfg s (Some [record])
        = (Inr (200, ''Successfully processed files''), snd out)"
      using source event' finished by (simp add: processor_lambda_handler_def)
    ultimately show ?thesis
      using True by simp
  next
    case False
    then have "\<not> (fault s1 (calls s1) CopyObject bucket ?q = None
                  \<and> fault s1 (Suc (calls s1)) DeleteObject bucket key = None)"
      using faults by simp
    then obtain e s' where raised: "out = (Inl e, s')"
      unfolding attempt using move_to_quarantine_refused by blast
    have "process_records unquote_plus cfg s (record # records) = (Inl e, snd out)"
      using source event' raised by simp
    moreover from this
    have "processor_lambda_handler unquote_plus cfg s (Some (record # records)) = (Inl e, snd out)"
      by (simp add: processor_lambda_handler_def)
    ultimately show ?thesis
      using False raised by simp
  qed
  show ?thesis
    using attempt kept why outcome
    by (intro exI [of _ s1] exI [of _ reason] conjI)
qed

text \<open>
  The store refuses the delete of the pass-through step once: the step raises after the
  processed copy is written, the quarantine that follows is served, and the handler
  returns 200 with the object under \<open>quarantine/\<close>.
\<close>

theorem C4_witness:
  "startswith ''ObjectCreated:Put'' ''ObjectCreated''
   \<and> validate_file example_config ''uploads/f1/report.pdf'' 8 ''application/pdf''
   \<and> fst (move_to_processed example_config
        (called (slow_down_once_store ''upload-bucket'' ''uploads/f1/report.pdf'' ''%PDF-1.7''
           ''application/pdf''))
        ''upload-bucket'' ''uploads/f1/report.pdf'') = Inl (ClientError ''SlowDown'')
   \<and> (\<exists>s1 reason.
         process_s3_event (\<lambda>k. k) example_config
           (slow_down_once_store ''upload-bucket'' ''uploads/f1/report.pdf'' ''%PDF-1.7''
              ''application/pdf'')
           (created_record ''upload-bucket'' ''uploads/f1/report.pdf'')
         = move_to_quarantine s1 ''upload-bucket'' ''uploads/f1/report.pdf'' reason
       \<and> map_of (objects s1) (''upload-bucket'', ''uploads/f1/report.pdf'')
           = Some \<lparr>Body = ''%PDF-1.7'', ContentType = Some ''application/pdf'', Metadata = []\<rparr>)
   \<and> fst (processor_lambda_handler (\<lambda>k. k) example_config
            (slow_down_once_store ''upload-bucket'' ''uploads/f1/report.pdf'' ''%PDF-1.7''
               ''application/pdf'')
            (Some [created_record ''upload-bucket'' ''uploads/f1/report.pdf'']))
       = Inr (200, ''Successfully processed files'')
   \<and> map_of (objects (snd (process_s3_event (\<lambda>k. k) example_config
            (slow_down_once_store ''upload-bucket'' ''uploads/f1/report.pdf'' ''%PDF-1.7''
               ''application/pdf'')
            (created_record ''upload-bucket'' ''uploads/f1/report.pdf''))))
        (''upload-bucket'', ''quarantine/uploads/f1/report.pdf'')
       = Some \<lparr>Body = ''%PDF-1.7'', ContentType = Some ''binary/octet-stream'',
               Metadata = quarantine_metadata ''Processing error: SlowDown''
                            ''uploads/f1/report.pdf''\<rparr>
   \<and> map_of (objects (snd (process_s3_event (\<lambda>k. k) example_config
            (slow_down_once_store ''upload-bucket'' ''uploads/f1/report.pdf'' ''%PDF-1.7''
               ''application/pdf'')
            (created_record ''upload-bucket'' ''uploads/f1/report.pdf''))))
        (''upload-bucket'', ''uploads/f1/report.pdf'') = None
   \<and> map_of (objects (snd (process_s3_event (\<lambda>k. k) example_config
            (slow_down_once_store ''upload-bucket'' ''uploads/f1/report.pdf'' ''%PDF-1.7''
               ''application/pdf'')
            (created_record ''upload-bucket'' ''uploads/f1/report.pdf''))))
        (''processed-bucket'', ''processed/uploads/f1/report.pdf'')
       = Some \<lparr>Body = ''%PDF-1.7'', ContentType = Some ''binary/octet-stream'',
               Metadata = processing_metadata ''uploads/f1/report.pdf''\<rparr>"
proof -
  let ?s = "slow_down_once_store ''upload-bucket'' ''uploads/f1/report.pdf'' ''%PDF-1.7''
              ''application/pdf''"
  let ?event = "created_record ''upload-bucket'' ''uploads/f1/report.pdf''"
  let ?obj = "\<lparr>Body = ''%PDF-1.7'', ContentType = Some ''application/pdf'', Metadata = []\<rparr>"
  let ?step = "move_to_processed example_config (called ?s) ''upload-bucket''
                 ''uploads/f1/report.pdf''"
  have sw: "startswith ''ObjectCreated:Put'' ''ObjectCreated''"
    and ni: "\<not> startswith ''application/pdf'' ''image/''"
    by (simp_all add: startswith_def)
  have ok: "validate_file example_config ''uploads/f1/report.pdf'' 8 ''application/pdf''"
    by code_simp
  have failed: "fst ?step = Inl (ClientError ''SlowDown'')"
    by code_simp
  then have failed': "fst ?step \<noteq> Inr ()"
    by simp
  have evaluated:
    "fst (processor_lambda_handler (\<lambda>k. k) example_config ?s (Some [?event]))
       = Inr (200, ''Successfully processed files'')
     \<and> map_of (objects (snd (process_s3_event (\<lambda>k. k) example_config ?s ?event)))
          (''upload-bucket'', ''quarantine/uploads/f1/report.pdf'')
         = Some \<lparr>Body = ''%PDF-1.7'', ContentType = Some ''binary/octet-stream'',
                 Metadata = quarantine_metadata ''Processing error: SlowDown''
                              ''uploads/f1/report.pdf''\<rparr>
     \<and> map_of (objects (snd (process_s3_event (\<lambda>k. k) example_config ?s ?event)))
          (''upload-bucket'', ''uploads/f1/report.pdf'') = None
     \<and> map_of (objects (snd (process_s3_event (\<lambda>k. k) example_config ?s ?event)))
          (''processed-bucket'', ''processed/uploads/f1/report.pdf'')
         = Some \<lparr>Body = ''%PDF-1.7'', ContentType = Some ''binary/octet-stream'',
                 Metadata = processing_metadata ''uploads/f1/report.pdf''\<rparr>"
    by code_simp
  have "\<exists>s1 reason.
         process_s3_event (\<lambda>k. k) example_config ?s ?event
         = move_to_quarantine s1 ''upload-bucket'' ''uploads/f1/report.pdf'' reason
       \<and> map_of (objects s1) (''upload-bucket'', ''uploads/f1/report.pdf'') = Some ?obj"
  proof -
    have "\<exists>s1 reason.
           process_s3_event (\<lambda>k. k) example_config ?s ?event
             = move_to_quarantine s1 ''upload-bucket'' ''uploads/f1/report.pdf'' reason
         \<and> map_of (objects s1) (''upload-bucket'', ''uploads/f1/report.pdf'') = Some ?obj
         \<and> (if \<not> validate_file example_config ''uploads/f1/report.pdf'' (ContentLength ?obj)
                    ''application/pdf''
             then (s1 = called ?s \<and> reason = ''Validation failed'')
                \<or> (\<exists>e. move_to_quarantine (called ?s) ''upload-bucket''
                          ''uploads/f1/report.pdf'' ''Validation failed'' = (Inl e, s1)
                        \<and> reason = ''Processing error: '' @ str_exn e)
             else \<exists>e. ?step = (Inl e, s1) \<and> reason = ''Processing error: '' @ str_exn e)
         \<and> (if fault ?s (calls s1) CopyObject ''upload-bucket''
                  (''quarantine/'' @ ''uploads/f1/report.pdf'') = None
                \<and> fault ?s (Suc (calls s1)) DeleteObject ''upload-bucket''
                     ''uploads/f1/report.pdf'' = None
             then fst (process_s3_event (\<lambda>k. k) example_config ?s ?event) = Inr ()
                \<and> map_of (objects (snd (process_s3_event (\<lambda>k. k) example_config ?s ?event)))
                     (''upload-bucket'', ''quarantine/'' @ ''uploads/f1/report.pdf'')
                    = Some \<lparr>Body = Body ?obj, ContentType = Some ''binary/octet-stream'',
                            Metadata = quarantine_metadata reason ''uploads/f1/report.pdf''\<rparr>
                \<and> map_of (objects (snd (process_s3_event (\<lambda>k. k) example_config ?s ?event)))
                     (''upload-bucket'', ''uploads/f1/report.pdf'') = None
                \<and> process_records (\<lambda>k. k) example_config ?s (?event # [])
                    = process_records (\<lambda>k. k) example_config
                        (snd (process_s3_event (\<lambda>k. k) example_config ?s ?event)) []
                \<and> processor_lambda_handler (\<lambda>k. k) example_config ?s (Some [?event])
                    = (Inr (200, ''Successfully processed files''),
                       snd (process_s3_event (\<lambda>k. k) example_config ?s ?event))
             else \<exists>e. fst (process_s3_event (\<lambda>k. k) example_config ?s ?event) = Inl e
                \<and> process_records (\<lambda>k. k) example_config ?s (?event # [])
                    = (Inl e, snd (process_s3_event (\<lambda>k. k) example_config ?s ?event))
                \<and> processor_lambda_handler (\<lambda>k. k) example_config ?s (Some (?event # []))
                    = (Inl e, snd (process_s3_event (\<lambda>k. k) example_config ?s ?event)))"
    proof (rule C4_failures_end_in_quarantine [where event_name = "''ObjectCreated:Put''"
          and raw_key = "''uploads/f1/report.pdf''"])
      show "eventSource ?event = Some ''aws:s3''"
        and "eventName ?event = Some ''ObjectCreated:Put''"
        and "s3_bucket_name ?event = Some ''upload-bucket''"
        and "s3_object_key ?event = Some ''uploads/f1/report.pdf''"
        by (simp_all add: created_record_def)
      show "startswith ''ObjectCreated:Put'' ''ObjectCreated''"
        by (rule sw)
      show "''uploads/f1/report.pdf'' = (\<lambda>k. k) ''uploads/f1/report.pdf''"
        by simp
      show "map_of (objects ?s) (''upload-bucket'', ''uploads/f1/report.pdf'') = Some ?obj"
        by (simp add: slow_down_once_store_def)
      show "''application/pdf'' = (case ContentType ?obj of None \<Rightarrow> [] | Some c \<Rightarrow> c)"
        by simp
      show "fault ?s (calls ?s) HeadObject ''upload-bucket'' ''uploads/f1/report.pdf'' = None"
        by (simp add: slow_down_once_store_def)
      show "?step = (if startswith ''application/pdf'' ''image/''
                        \<and> ENABLE_IMAGE_RESIZE example_config
                     then process_image example_config (called ?s) ''upload-bucket''
                            ''uploads/f1/report.pdf''
                     else ?step)"
        using ni by simp
      show "\<not> validate_file example_config ''uploads/f1/report.pdf'' (ContentLength ?obj)
                ''application/pdf'' \<or> fst ?step \<noteq> Inr ()"
        using failed' by simp
      show "process_s3_event (\<lambda>k. k) example_config ?s ?event
            = process_s3_event (\<lambda>k. k) example_config ?s ?event"
        by (rule refl)
    qed
    then show ?thesis by blast
  qed
  then show ?thesis
    using sw ok failed evaluated by simp
qed

text \<open>
  C4 as stated does not hold: the quarantine is not guarded. Where the storage service
  keeps refusing the delete, a file that fails validation, and likewise a valid file whose
  pass-through step fails, make \<open>move_to_quarantine\<close> raise inside the \<open>except\<close> branch, and
  the handler raises instead of returning success.
\<close>

theorem C4_quarantine_failure_propagates:
  "\<not> validate_file example_config ''uploads/f1/x.exe'' 5 ''application/octet-stream''
   \<and> fst (processor_lambda_handler (\<lambda>k. k) example_config
            (denied_delete_store ''upload-bucket'' ''uploads/f1/x.exe'' ''MZ...'' ''application/octet-stream'')
            (Some [created_record ''upload-bucket'' ''uploads/f1/x.exe'']))
       = Inl (ClientError ''Access Denied'')
   \<and> validate_file example_config ''uploads/f1/report.pdf'' 8 ''application/pdf''
   \<and> fst (move_to_processed example_config
            (called (denied_delete_store ''upload-bucket'' ''uploads/f1/report.pdf'' ''%PDF-1.7''
               ''application/pdf''))
            ''upload-bucket'' ''uploads/f1/report.pdf'')
       = Inl (ClientError ''Access Denied'')
   \<and> fst (processor_lambda_handler (\<lambda>k. k) example_config
            (denied_delete_store ''upload-bucket'' ''uploads/f1/report.pdf'' ''%PDF-1.7'' ''application/pdf'')
            (Some [created_record ''upload-bucket'' ''uploads/f1/report.pdf'']))
       = Inl (ClientError ''Access Denied'')"
  by code_simp

text \<open>
  C5. Under the default allow-list (\<open>.jpg,.png,.pdf\<close>) and any configured maximum: a request
  body whose file name is \<open>x.exe\<close> is answered 400 whatever size it declares (and whatever
  else it holds); a body with file name \<open>x.png\<close> and a declared size up to the maximum is
  answered 200 with \<open>expires_in = 900\<close>, provided the signing of the URL succeeds; with a
  declared size above the maximum it is answered 400.
\<close>

theorem C5_upload_validation:
  assumes allow: "ALLOWED_FILE_TYPES cfg = default_allowed_file_types"
  shows "(dict_get kvs ''filename'' JNull = JStr ''x.exe''
            \<longrightarrow> statusCode (get_upload_url cfg env (JObj kvs)) = 400)
       \<and> (dict_get kvs ''filename'' JNull = JStr ''x.png''
            \<and> dict_get kvs ''file_size'' (JInt 0) = JInt n
            \<and> n \<le> MAX_FILE_SIZE_MB cfg * 1024 * 1024
            \<and> (\<forall>p. \<exists>url. generate_presigned_url env ''put_object'' p 900 = Inr url)
            \<longrightarrow> statusCode (get_upload_url cfg env (JObj kvs)) = 200
              \<and> field (body (get_upload_url cfg env (JObj kvs))) ''expires_in'' = Some (JInt 900))
       \<and> (dict_get kvs ''filename'' JNull = JStr ''x.png''
            \<and> dict_get kvs ''file_size'' (JInt 0) = JInt n
            \<and> n > MAX_FILE_SIZE_MB cfg * 1024 * 1024
            \<longrightarrow> statusCode (get_upload_url cfg env (JObj kvs)) = 400)"
proof (intro conjI impI)
  assume exe: "dict_get kvs ''filename'' JNull = JStr ''x.exe''"
  have "validate_upload_request cfg ''x.exe'' sz = Inr False" for sz
    by (simp add: validate_upload_request_def extension_of_x_exe allow
          default_allowed_file_types_eq)
  then show "statusCode (get_upload_url cfg env (JObj kvs)) = 400"
    using exe dict_get_nonempty [OF exe]
    by (simp add: get_upload_url_def Let_def create_response_def)
next
  assume h: "dict_get kvs ''filename'' JNull = JStr ''x.png''
            \<and> dict_get kvs ''file_size'' (JInt 0) = JInt n
            \<and> n \<le> MAX_FILE_SIZE_MB cfg * 1024 * 1024
            \<and> (\<forall>p. \<exists>url. generate_presigned_url env ''put_object'' p 900 = Inr url)"
  then have png: "dict_get kvs ''filename'' JNull = JStr ''x.png''"
    and sz: "dict_get kvs ''file_size'' (JInt 0) = JInt n"
    and small: "n \<le> MAX_FILE_SIZE_MB cfg * 1024 * 1024"
    and signs: "\<And>p. \<exists>url. generate_presigned_url env ''put_object'' p 900 = Inr url"
    by auto
  have ok: "validate_upload_request cfg ''x.png'' (JInt n) = Inr True"
    using small
    by (simp add: validate_upload_request_def extension_of_x_png allow
          default_allowed_file_types_eq)
  let ?p = "\<lparr>pp_Bucket = UPLOAD_BUCKET cfg,
             pp_Key = ''uploads/'' @ uuid4 env @ ''/'' @ ''x.png'',
             pp_ContentType = dict_get kvs ''content_type'' (JStr ''application/octet-stream''),
             pp_Metadata = [(''file-id'', uuid4 env), (''original-filename'', ''x.png''),
                            (''upload-time'', now_isoformat env)]\<rparr>"
  obtain url where url: "generate_presigned_url env ''put_object'' ?p 900 = Inr url"
    using signs [of ?p] by blast
  have r: "get_upload_url cfg env (JObj kvs) =
      create_response 200
        (JObj [(''upload_url'', JStr url),
               (''file_id'', JStr (uuid4 env)),
               (''file_key'', JStr (''uploads/'' @ uuid4 env @ ''/'' @ ''x.png'')),
               (''expires_in'', JInt 900),
               (''instructions'',
                  JObj [(''method'', JStr ''PUT''),
                        (''headers'',
                           JObj [(''Content-Type'',
                             dict_get kvs ''content_type'' (JStr ''application/octet-stream''))])])])"
    using png sz ok url dict_get_nonempty [OF png]
    by (simp add: get_upload_url_def Let_def)
  show "statusCode (get_upload_url cfg env (JObj kvs)) = 200"
    unfolding r by (simp add: create_response_def)
  show "field (body (get_upload_url cfg env (JObj kvs))) ''expires_in'' = Some (JInt 900)"
    unfolding r by (simp add: create_response_def)
next
  assume h: "dict_get kvs ''filename'' JNull = JStr ''x.png''
            \<and> dict_get kvs ''file_size'' (JInt 0) = JInt n
            \<and> n > MAX_FILE_SIZE_MB cfg * 1024 * 1024"
  then have png: "dict_get kvs ''filename'' JNull = JStr ''x.png''"
    and sz: "dict_get kvs ''file_size'' (JInt 0) = JInt n"
    and big: "n > MAX_FILE_SIZE_MB cfg * 1024 * 1024"
    by auto
  have "validate_upload_request cfg ''x.png'' (JInt n) = Inr False"
    using big
    by (simp add: validate_upload_request_def extension_of_x_png allow
          default_allowed_file_types_eq)
  then show "statusCode (get_upload_url cfg env (JObj kvs)) = 400"
    using png sz dict_get_nonempty [OF png]
    by (simp add: get_upload_url_def Let_def create_response_def)
qed

theorem C5_witness:
  "ALLOWED_FILE_TYPES example_config = default_allowed_file_types
   \<and> statusCode (get_upload_url example_config example_upload_env
        (JObj [(''filename'', JStr ''x.exe''), (''file_size'', JInt 1)])) = 400
   \<and> (10485760::int) \<le> MAX_FILE_SIZE_MB example_config * 1024 * 1024
   \<and> statusCode (get_upload_url example_config example_upload_env
        (JObj [(''filename'', JStr ''x.png''), (''file_size'', JInt 10485760)])) = 200
   \<and> field (body (get_upload_url example_config example_upload_env
        (JObj [(''filename'', JStr ''x.png''), (''file_size'', JInt 10485760)])))
        ''expires_in'' = Some (JInt 900)
   \<and> (10485761::int) > MAX_FILE_SIZE_MB example_config * 1024 * 1024
   \<and> statusCode (get_upload_url example_config example_upload_env
        (JObj [(''filename'', JStr ''x.png''), (''file_size'', JInt 10485761)])) = 400"
proof -
  have allow: "ALLOWED_FILE_TYPES example_config = default_allowed_file_types"
    and mx: "MAX_FILE_SIZE_MB example_config = 10"
    by (simp_all add: example_config_def)
  have signs: "\<forall>p. \<exists>url. generate_presigned_url example_upload_env ''put_object'' p 900 = Inr url"
    by (simp add: example_upload_env_def)
  show ?thesis
    using allow signs
      C5_upload_validation [OF allow,
        of "[(''filename'', JStr ''x.exe''), (''file_size'', JInt 1)]" example_upload_env 1]
      C5_upload_validation [OF allow,
        of "[(''filename'', JStr ''x.png''), (''file_size'', JInt 10485760)]" example_upload_env 10485760]
      C5_upload_validation [OF allow,
        of "[(''filename'', JStr ''x.png''), (''file_size'', JInt 10485761)]" example_upload_env 10485761]
    by (simp add: dict_get_def mx)
qed

text \<open>
  C8. For every non-empty identifier whose two listings are served, \<open>get_processing_status\<close>
  answers 200 with exactly one status: \<open>completed\<close> if the processed bucket holds an object
  under \<open>processed/uploads/{id}/\<close> (looked at first), else \<open>processing\<close> if the upload
  bucket holds one under \<open>uploads/{id}/\<close>, else \<open>not_found\<close>. A key under \<open>quarantine/\<close>
  matches neither prefix, so where only quarantined objects are stored the status is
  \<open>not_found\<close>.
\<close>

theorem C8_processing_status_three_states:
  assumes ident: "fid \<noteq> []"
    and served: "fault s (calls s) ListObjectsV2 (UPLOAD_BUCKET cfg) (''uploads/'' @ fid @ ''/'') = None"
      "fault s (calls s + 1) ListObjectsV2 (PROCESSED_BUCKET cfg)
         (''processed/uploads/'' @ fid @ ''/'') = None"
    and processed: "processed \<longleftrightarrow>
        (\<exists>bk \<in> fst ` set (objects s). fst bk = PROCESSED_BUCKET cfg
            \<and> startswith (snd bk) (''processed/uploads/'' @ fid @ ''/''))"
    and incoming: "incoming \<longleftrightarrow>
        (\<exists>bk \<in> fst ` set (objects s). fst bk = UPLOAD_BUCKET cfg
            \<and> startswith (snd bk) (''uploads/'' @ fid @ ''/''))"
  shows "statusCode (get_processing_status cfg s (Some fid)) = 200
       \<and> field (body (get_processing_status cfg s (Some fid))) ''status''
           = Some (JStr (if processed then ''completed''
                         else if incoming then ''processing''
                         else ''not_found''))
       \<and> ((\<forall>bk \<in> fst ` set (objects s). startswith (snd bk) ''quarantine/'')
            \<longrightarrow> field (body (get_processing_status cfg s (Some fid))) ''status''
                  = Some (JStr ''not_found''))"
proof -
  let ?r = "get_processing_status cfg s (Some fid)"
  define ups where "ups = map (snd \<circ> fst)
      (filter (\<lambda>(bk, obj). fst bk = UPLOAD_BUCKET cfg
                 \<and> startswith (snd bk) (''uploads/'' @ fid @ ''/'')) (objects s))"
  define pros where "pros = map (snd \<circ> fst)
      (filter (\<lambda>(bk, obj). fst bk = PROCESSED_BUCKET cfg
                 \<and> startswith (snd bk) (''processed/uploads/'' @ fid @ ''/'')) (objects s))"
  have up_list: "list_objects_v2 s (UPLOAD_BUCKET cfg) (''uploads/'' @ fid @ ''/'')
      = (Inr ups, called s)"
    unfolding ups_def using served(1) by (rule list_objects_v2_served)
  have "fault (called s) (calls (called s)) ListObjectsV2 (PROCESSED_BUCKET cfg)
          (''processed/uploads/'' @ fid @ ''/'') = None"
    using served(2) by (simp add: called_def)
  then have "list_objects_v2 (called s) (PROCESSED_BUCKET cfg)
        (''processed/uploads/'' @ fid @ ''/'')
      = (Inr (map (snd \<circ> fst)
           (filter (\<lambda>(bk, obj). fst bk = PROCESSED_BUCKET cfg
              \<and> startswith (snd bk) (''processed/uploads/'' @ fid @ ''/''))
              (objects (called s)))), called (called s))"
    by (rule list_objects_v2_served)
  then have pro_list: "list_objects_v2 (called s) (PROCESSED_BUCKET cfg)
        (''processed/uploads/'' @ fid @ ''/'') = (Inr pros, called (called s))"
    unfolding pros_def by (simp add: called_def)
  have up_iff: "ups \<noteq> [] \<longleftrightarrow> incoming"
    unfolding ups_def incoming by (rule listing_nonempty_iff)
  have pro_iff: "pros \<noteq> [] \<longleftrightarrow> processed"
    unfolding pros_def processed by (rule listing_nonempty_iff)
  have r: "?r = create_response 200
      (JObj [(''file_id'', JStr fid),
             (''status'', JStr (if processed then ''completed''
                                else if incoming then ''processing'' else ''not_found'')),
             (''message'', JStr (if processed then ''File processing completed''
                                 else if incoming then ''File is being processed''
                                 else ''File not found''))])"
    using ident up_iff pro_iff up_list pro_list
    unfolding get_processing_status_def
    by simp
  have status: "field (body ?r) ''status''
      = Some (JStr (if processed then ''completed''
                    else if incoming then ''processing'' else ''not_found''))"
    unfolding r by (simp add: create_response_def)
  have quarantined: "\<not> processed \<and> \<not> incoming"
    if "\<forall>bk \<in> fst ` set (objects s). startswith (snd bk) ''quarantine/''"
    using that quarantine_not_under_uploads quarantine_not_under_processed
    unfolding processed incoming by blast
  show ?thesis
    using status quarantined unfolding r by (simp add: create_response_def)
qed

theorem C8_witness:
  "''f1'' \<noteq> []
   \<and> statusCode (get_processing_status example_config quarantined_only_store (Some ''f1'')) = 200
   \<and> field (body (get_processing_status example_config quarantined_only_store (Some ''f1'')))
        ''status'' = Some (JStr ''not_found'')"
proof -
  have q: "\<forall>bk \<in> fst ` set (objects quarantined_only_store). startswith (snd bk) ''quarantine/''"
    by (simp add: quarantined_only_store_def startswith_def)
  show ?thesis
    using q
      C8_processing_status_three_states [of "''f1''" quarantined_only_store example_config
        "\<exists>bk \<in> fst ` set (objects quarantined_only_store). fst bk = PROCESSED_BUCKET example_config
            \<and> startswith (snd bk) (''processed/uploads/'' @ ''f1'' @ ''/'')"
        "\<exists>bk \<in> fst ` set (objects quarantined_only_store). fst bk = UPLOAD_BUCKET example_config
            \<and> startswith (snd bk) (''uploads/'' @ ''f1'' @ ''/'')"]
    by (simp add: quarantined_only_store_def startswith_def)
qed

text \<open>
  C10. In \<open>update_item\<close> the empty-body check comes before the existence check: an empty
  body (\<open>{}\<close> or none) is answered 400 for every identifier and every table, the
  identifiers the table does not hold included, and never 404; the table is not touched.
\<close>

theorem C10_empty_body_checked_before_existence:
  "update_item env s current_time item_id (JObj [])
     = (create_response 400 (error_body ''Request body is required''), s)
   \<and> update_item env s current_time item_id JNull
     = (create_response 400 (error_body ''Request body is required''), s)
   \<and> statusCode (fst (update_item env s current_time item_id (JObj []))) \<noteq> 404"
  by (simp add: update_item_def create_response_def)

lemma C10_example:
  "map_of (table example_table) ''missing'' = None
   \<and> statusCode (fst (update_item example_crud_env example_table ''2024-06-01T12:00:00''
        ''missing'' (JObj []))) = 400
   \<and> statusCode (fst (update_item example_crud_env example_table ''2024-06-01T12:00:00''
        ''missing'' (JObj [(''name'', JStr ''x'')]))) = 404"
  by code_simp

text \<open>
  C7, where the code departs from it. \<open>update_item\<close> excludes only \<open>id\<close> and \<open>created_at\<close>
  from the merge (\<open>create_item\<close> also excludes \<open>updated_at\<close>). A body that carries
  \<open>updated_at\<close> adds a second clause for that path and overwrites the value \<open>:updated_at\<close>,
  so the update time is no longer in the request; the service rejects the overlapping
  paths. Whatever the table and the identifier, such an update is never answered 200 and
  leaves the table as it was: \<open>updated_at\<close> is not refreshed and no other field of the body
  is merged.
\<close>

theorem C7_caller_updated_at_defeats_refresh:
  assumes "(''updated_at'', v) \<in> set kvs"
  shows "statusCode (fst (update_item env s current_time item_id (JObj kvs))) \<noteq> 200
       \<and> snd (update_item env s current_time item_id (JObj kvs)) = s"
proof -
  obtain ue ev where loop: "update_item_loop kvs
      ([(''updated_at'', '':updated_at'')], [('':updated_at'', JStr current_time)]) = (ue, ev)"
    by (cases "update_item_loop kvs
      ([(''updated_at'', '':updated_at'')], [('':updated_at'', JStr current_time)])") blast
  have "''updated_at'' \<in> set (filter (\<lambda>k. k \<notin> set [''id'', ''created_at'']) (map fst kvs))"
    using assms by force
  then have "\<not> distinct (''updated_at'' #
      filter (\<lambda>k. k \<notin> set [''id'', ''created_at'']) (map fst kvs))"
    by simp
  moreover have "map fst ue = ''updated_at'' #
      filter (\<lambda>k. k \<notin> set [''id'', ''created_at'']) (map fst kvs)"
    using update_item_loop_paths [of kvs
      "([(''updated_at'', '':updated_at'')], [('':updated_at'', JStr current_time)])"]
    unfolding loop by simp
  ultimately have "\<not> distinct (map fst ue)"
    by simp
  then obtain e where rejected: "db_update_item s item_id ue ev = Inl e"
    using db_update_item_overlap by blast
  have nonempty: "kvs \<noteq> []"
    using assms by auto
  show ?thesis
    using nonempty loop rejected
    by (auto simp: update_item_def create_response_def split: sum.splits option.splits)
qed

theorem C7_witness:
  "map_of (table example_table) ''a'' = Some (example_item ''a'' ''first'')
   \<and> update_item_loop [(''updated_at'', JStr ''1999-01-01T00:00:00'')]
        ([(''updated_at'', '':updated_at'')], [('':updated_at'', JStr ''2024-06-01T12:00:00'')])
      = ([(''updated_at'', '':updated_at''), (''updated_at'', '':updated_at'')],
         [('':updated_at'', JStr ''1999-01-01T00:00:00'')])
   \<and> fst (update_item example_crud_env example_table ''2024-06-01T12:00:00'' ''a''
        (JObj [(''updated_at'', JStr ''1999-01-01T00:00:00'')]))
      = create_response 500 (error_body ''Failed to update item'')
   \<and> snd (update_item example_crud_env example_table ''2024-06-01T12:00:00'' ''a''
        (JObj [(''updated_at'', JStr ''1999-01-01T00:00:00'')]))
      = example_table"
proof -
  have evaluated:
    "map_of (table example_table) ''a'' = Some (example_item ''a'' ''first'')
     \<and> update_item_loop [(''updated_at'', JStr ''1999-01-01T00:00:00'')]
          ([(''updated_at'', '':updated_at'')], [('':updated_at'', JStr ''2024-06-01T12:00:00'')])
        = ([(''updated_at'', '':updated_at''), (''updated_at'', '':updated_at'')],
           [('':updated_at'', JStr ''1999-01-01T00:00:00'')])
     \<and> fst (update_item example_crud_env example_table ''2024-06-01T12:00:00'' ''a''
          (JObj [(''updated_at'', JStr ''1999-01-01T00:00:00'')]))
        = create_response 500 (error_body ''Failed to update item'')"
    by code_simp
  show ?thesis
    using evaluated
      C7_caller_updated_at_defeats_refresh [of "JStr ''1999-01-01T00:00:00''"
        "[(''updated_at'', JStr ''1999-01-01T00:00:00'')]" example_crud_env example_table
        "''2024-06-01T12:00:00''" "''a''"]
    by simp
qed

text \<open>
  C9 (amended). A \<open>limit\<close> that \<open>int()\<close> does not parse is answered 400. For every parsed
  limit \<open>n\<close> of at least 1 the answer is either 200 with at most \<open>n\<close> items or 500. A limit
  of 0 is treated as no limit at all (the answer is that of a request without \<open>limit\<close>), and
  a negative limit is answered 500.
\<close>

theorem C9_limit_parameter:
  assumes "map_of query_params ''limit'' = Some text"
  shows "(py_int text = None
            \<longrightarrow> statusCode (get_all_items env s query_params) = 400)
       \<and> (\<forall>n. py_int text = Some n \<and> 1 \<le> n
            \<longrightarrow> (case field (body (get_all_items env s query_params)) ''items'' of
                   Some (JArr items) \<Rightarrow>
                     statusCode (get_all_items env s query_params) = 200
                     \<and> int (length items) \<le> n
                 | _ \<Rightarrow> statusCode (get_all_items env s query_params) = 500))
       \<and> (py_int text = Some 0
            \<longrightarrow> get_all_items env s query_params = get_all_items env s [])
       \<and> (\<forall>n. py_int text = Some n \<and> n < 0
            \<longrightarrow> statusCode (get_all_items env s query_params) = 500)"
proof (intro conjI allI impI)
  assume "py_int text = None"
  then show "statusCode (get_all_items env s query_params) = 400"
    using assms by (simp add: get_all_items_def create_response_def)
next
  fix n assume "py_int text = Some n \<and> 1 \<le> n"
  then have n: "py_int text = Some n" "1 \<le> n" by auto
  then show "case field (body (get_all_items env s query_params)) ''items'' of
        Some (JArr items) \<Rightarrow>
          statusCode (get_all_items env s query_params) = 200 \<and> int (length items) \<le> n
      | _ \<Rightarrow> statusCode (get_all_items env s query_params) = 500"
    using assms
    by (auto simp: get_all_items_def db_scan_def create_response_def error_body_def Let_def
             split: option.splits)
next
  assume "py_int text = Some 0"
  then show "get_all_items env s query_params = get_all_items env s []"
    using assms by (simp add: get_all_items_def)
next
  fix n assume "py_int text = Some n \<and> n < 0"
  then show "statusCode (get_all_items env s query_params) = 500"
    using assms by (simp add: get_all_items_def db_scan_def create_response_def)
qed

theorem C9_witness:
  "map_of [(''limit'', ''abc'')] ''limit'' = Some ''abc''
   \<and> py_int ''abc'' = None
   \<and> statusCode (get_all_items example_crud_env example_table [(''limit'', ''abc'')]) = 400
   \<and> py_int ''2'' = Some 2
   \<and> statusCode (get_all_items example_crud_env example_table [(''limit'', ''2'')]) = 200
   \<and> field (body (get_all_items example_crud_env example_table [(''limit'', ''2'')])) ''count''
       = Some (JInt 2)"
proof -
  have evaluated: "py_int ''abc'' = None \<and> py_int ''2'' = Some 2
     \<and> statusCode (get_all_items example_crud_env example_table [(''limit'', ''2'')]) = 200
     \<and> field (body (get_all_items example_crud_env example_table [(''limit'', ''2'')])) ''count''
         = Some (JInt 2)"
    by code_simp
  show ?thesis
    using evaluated
      C9_limit_parameter [of "[(''limit'', ''abc'')]" "''abc''" example_crud_env example_table]
    by simp
qed

text \<open>
  C9 as stated does not hold for the numeric limit 0: \<open>if limit:\<close> drops it, and the scan
  returns all three items of the table.
\<close>

theorem C9_zero_limit_returns_everything:
  "py_int ''0'' = Some 0
   \<and> statusCode (get_all_items example_crud_env example_table [(''limit'', ''0'')]) = 200
   \<and> field (body (get_all_items example_crud_env example_table [(''limit'', ''0'')])) ''count''
       = Some (JInt 3)"
  by code_simp




end
